theory Spec2Isabelle
  imports Complex_Main
begin

section \<open>Home purchase calculator: the calculation functions of static/js/app.js\<close>

text \<open>
  The calculator works on JavaScript numbers, which are IEEE doubles. The model has
  two levels of detail, chosen by what is proved about each function.

  The insurance, welcome-tax and affordability functions and the first pass over the
  financing sources compare, add, subtract and scale amounts of money; they are
  modelled on the real numbers with the exact operations, and the values \<open>Infinity\<close>
  and \<open>NaN\<close> appear only where the source holds them (the last threshold of the
  welcome-tax table).

  The payment formula divides by a difference that rounding can make zero and raises
  to a power that can overflow, and the per-person shares of the housing costs are
  quotients and products whose rounding shows in their sum. The payment formula, the
  second pass, which stores its results, and the household ratios are modelled on
  doubles: every operation rounds its exact result to the nearest double, and an
  operation with no finite result gives \<open>Infinity\<close>, \<open>-Infinity\<close> or \<open>NaN\<close>, as
  JavaScript does, and the calculation goes on.
\<close>

subsection \<open>Constants\<close>

record cmhc_bracket =
  maxLtv :: real
  cmhcRate :: real

definition CMHC_RATES :: "cmhc_bracket list" where
  "CMHC_RATES =
     [\<lparr>maxLtv = 0.65, cmhcRate = 0.0060\<rparr>,
      \<lparr>maxLtv = 0.75, cmhcRate = 0.0170\<rparr>,
      \<lparr>maxLtv = 0.80, cmhcRate = 0.0240\<rparr>,
      \<lparr>maxLtv = 0.85, cmhcRate = 0.0280\<rparr>,
      \<lparr>maxLtv = 0.90, cmhcRate = 0.0310\<rparr>,
      \<lparr>maxLtv = 0.95, cmhcRate = 0.0400\<rparr>]"

definition CMHC_30_YEAR_SURCHARGE :: real where
  "CMHC_30_YEAR_SURCHARGE = 0.0020"

definition QUEBEC_TVQ_RATE :: real where
  "QUEBEC_TVQ_RATE = 0.09975"

subsection \<open>Mortgage insurance\<close>

definition calculateLtv :: "real \<Rightarrow> real \<Rightarrow> real" where
  "calculateLtv purchasePrice downPayment =
     (if purchasePrice \<le> 0 then 0 else (purchasePrice - downPayment) / purchasePrice)"

text \<open>
  The scan of \<open>getCmhcRate\<close>: \<open>rate\<close> keeps its initial value unless a bracket
  matches, and the first match ends the loop.
\<close>

fun getCmhcRate_scan :: "cmhc_bracket list \<Rightarrow> real \<Rightarrow> real \<Rightarrow> real" where
  "getCmhcRate_scan [] ltv rate = rate"
| "getCmhcRate_scan (bracket # brackets) ltv rate =
     (if ltv \<le> maxLtv bracket then cmhcRate bracket
      else getCmhcRate_scan brackets ltv rate)"

definition getCmhcRate :: "real \<Rightarrow> bool \<Rightarrow> real" where
  "getCmhcRate ltv is30Year =
     (let rate = getCmhcRate_scan CMHC_RATES ltv 0
      in if is30Year then rate + CMHC_30_YEAR_SURCHARGE else rate)"

record cmhc_result =
  mortgageAmount :: real
  ltv :: real
  ltvPercent :: real
  downPaymentPercent :: real
  cmhcRequired :: bool
  premiumRate :: real
  premiumRatePercent :: real
  cmhcPremium :: real
  quebecTax :: real
  totalCmhcCost :: real
  totalMortgage :: real

definition calculateCmhc :: "real \<Rightarrow> real \<Rightarrow> bool \<Rightarrow> cmhc_result" where
  "calculateCmhc purchasePrice downPayment is30Year =
     (let mortgageAmount' = purchasePrice - downPayment;
          ltv' = calculateLtv purchasePrice downPayment;
          downPaymentPercent' =
            (if purchasePrice > 0 then (downPayment / purchasePrice) * 100 else 0);
          cmhcRequired' = (ltv' > 0.80);
          premiumRate' = getCmhcRate ltv' is30Year;
          cmhcPremium' = (if cmhcRequired' then mortgageAmount' * premiumRate' else 0);
          quebecTax' = cmhcPremium' * QUEBEC_TVQ_RATE;
          totalCmhcCost' = cmhcPremium' + quebecTax';
          totalMortgage' = mortgageAmount' + totalCmhcCost'
      in \<lparr>mortgageAmount = mortgageAmount',
          ltv = ltv',
          ltvPercent = ltv' * 100,
          downPaymentPercent = downPaymentPercent',
          cmhcRequired = cmhcRequired',
          premiumRate = premiumRate',
          premiumRatePercent = premiumRate' * 100,
          cmhcPremium = cmhcPremium',
          quebecTax = quebecTax',
          totalCmhcCost = totalCmhcCost',
          totalMortgage = totalMortgage'\<rparr>)"

subsection \<open>Affordability classification\<close>

record affordability =
  ratio :: real
  percent :: real
  status :: string
  statusColor :: string

definition calculateAffordability :: "real \<Rightarrow> real \<Rightarrow> affordability" where
  "calculateAffordability totalMonthlyCosts grossMonthlyIncome =
     (if grossMonthlyIncome \<le> 0 then
        \<lparr>ratio = 0, percent = 0, status = ''unknown'', statusColor = ''gray''\<rparr>
      else
        let ratio' = totalMonthlyCosts / grossMonthlyIncome;
            percent' = ratio' * 100
        in if percent' \<le> 30 then
             \<lparr>ratio = ratio', percent = percent',
              status = ''Affordable'', statusColor = ''green''\<rparr>
           else if percent' \<le> 40 then
             \<lparr>ratio = ratio', percent = percent',
              status = ''Caution'', statusColor = ''yellow''\<rparr>
           else
             \<lparr>ratio = ratio', percent = percent',
              status = ''High Risk'', statusColor = ''red''\<rparr>)"

subsection \<open>Welcome tax\<close>

text \<open>
  The last threshold of the table is \<open>Infinity\<close>, so the thresholds and the values
  computed from them are numbers that may be infinite. \<open>js_sub\<close> and \<open>js_min\<close>
  are the subtraction and \<open>Math.min\<close> on them. The purchase price, the remaining
  amount and the tax are finite throughout.
\<close>

datatype jsnum = Num real | PosInf | NegInf | NaN

fun js_sub :: "jsnum \<Rightarrow> jsnum \<Rightarrow> jsnum" where
  "js_sub NaN y = NaN"
| "js_sub x NaN = NaN"
| "js_sub (Num a) (Num b) = Num (a - b)"
| "js_sub (Num a) PosInf = NegInf"
| "js_sub (Num a) NegInf = PosInf"
| "js_sub PosInf PosInf = NaN"
| "js_sub PosInf y = PosInf"
| "js_sub NegInf NegInf = NaN"
| "js_sub NegInf y = NegInf"

fun js_min :: "jsnum \<Rightarrow> jsnum \<Rightarrow> jsnum" where
  "js_min NaN y = NaN"
| "js_min x NaN = NaN"
| "js_min NegInf y = NegInf"
| "js_min x NegInf = NegInf"
| "js_min PosInf y = y"
| "js_min x PosInf = x"
| "js_min (Num a) (Num b) = Num (min a b)"

record tax_bracket =
  threshold :: jsnum
  taxRate :: real

definition QUEBEC_WELCOME_TAX_BRACKETS :: "tax_bracket list" where
  "QUEBEC_WELCOME_TAX_BRACKETS =
     [\<lparr>threshold = Num 55200, taxRate = 0.005\<rparr>,
      \<lparr>threshold = Num 276200, taxRate = 0.010\<rparr>,
      \<lparr>threshold = Num 500000, taxRate = 0.015\<rparr>,
      \<lparr>threshold = Num 1000000, taxRate = 0.020\<rparr>,
      \<lparr>threshold = PosInf, taxRate = 0.025\<rparr>]"

record breakdown_entry =
  bd_from :: jsnum
  bd_to :: jsnum
  bd_rate :: real
  bd_amount :: real
  bd_tax :: real

record welcome_tax =
  breakdown :: "breakdown_entry list"
  totalTax :: real

text \<open>
  One round of the loop of \<open>calculateWelcomeTax\<close>, without the update of
  \<open>previousThreshold\<close> and the \<open>break\<close>, which are in \<open>welcomeTax_loop\<close>. The
  accumulator holds \<open>totalTax\<close>, \<open>remaining\<close> and \<open>breakdown\<close>. The test
  \<open>amountInBracket > 0\<close> is false for \<open>NaN\<close> and \<open>-Infinity\<close>, and the minimum
  with the finite \<open>remaining\<close> is never \<open>Infinity\<close>.
\<close>

definition welcomeTax_bracket ::
  "tax_bracket \<Rightarrow> real \<Rightarrow> jsnum \<Rightarrow> real \<times> real \<times> breakdown_entry list
     \<Rightarrow> real \<times> real \<times> breakdown_entry list" where
  "welcomeTax_bracket bracket purchasePrice previousThreshold acc =
     (case acc of (totalTax', remaining, breakdown') \<Rightarrow>
        let bracketMax = js_sub (threshold bracket) previousThreshold;
            amountInBracket = js_min (Num remaining) bracketMax
        in (case amountInBracket of
              Num a \<Rightarrow>
                if a > 0 then
                  let taxInBracket = a * taxRate bracket
                  in (totalTax' + taxInBracket,
                      remaining - a,
                      breakdown' @
                        [\<lparr>bd_from = previousThreshold,
                          bd_to = js_min (threshold bracket) (Num purchasePrice),
                          bd_rate = taxRate bracket,
                          bd_amount = a,
                          bd_tax = taxInBracket\<rparr>])
                else acc
            | _ \<Rightarrow> acc))"

fun welcomeTax_loop ::
  "tax_bracket list \<Rightarrow> real \<Rightarrow> jsnum \<Rightarrow> real \<times> real \<times> breakdown_entry list
     \<Rightarrow> real \<times> real \<times> breakdown_entry list" where
  "welcomeTax_loop [] purchasePrice previousThreshold acc = acc"
| "welcomeTax_loop (bracket # brackets) purchasePrice previousThreshold acc =
     (let acc' = welcomeTax_bracket bracket purchasePrice previousThreshold acc
      in if fst (snd acc') \<le> 0 then acc'
         else welcomeTax_loop brackets purchasePrice (threshold bracket) acc')"

definition calculateWelcomeTax :: "real \<Rightarrow> welcome_tax" where
  "calculateWelcomeTax purchasePrice =
     (case welcomeTax_loop QUEBEC_WELCOME_TAX_BRACKETS purchasePrice (Num 0)
             (0, purchasePrice, []) of
        (totalTax', remaining, breakdown') \<Rightarrow>
          \<lparr>breakdown = breakdown', totalTax = totalTax'\<rparr>)"

subsection \<open>Double arithmetic\<close>

text \<open>
  The payment formula, what the second pass computes from it and the household ratios
  are modelled on IEEE doubles, since their results at the edge of the double range (a
  rate so small that \<open>1 + monthlyRate\<close> is 1, a power that overflows) and the rounding
  of a quotient are part of what is proved about them. \<open>round64\<close> rounds a real number
  to the nearest double, ties to even: \<open>binade\<close> finds the exponent of the argument,
  not below the exponent -1022 of the subnormal numbers, the spacing of the doubles
  there is \<open>2 powi (e - 52)\<close>, and a result of magnitude \<open>2 ^ 1024\<close> or more is an
  infinity. The operations \<open>fl_add\<close>, \<open>fl_sub\<close>, \<open>fl_mul\<close> and \<open>fl_div\<close> are \<open>+\<close>,
  \<open>-\<close>, \<open>*\<close> and \<open>/\<close> of JavaScript, with the results of IEEE 754 for infinities,
  \<open>NaN\<close> and a zero divisor. The zero has no sign in the model: a quotient by zero
  takes the sign of the dividend.

  ECMAScript leaves the value of \<open>Math.pow\<close> implementation-approximated outside its
  special cases; \<open>Math_pow\<close> takes the correctly rounded power there.
\<close>

definition round_half_even :: "real \<Rightarrow> int" where
  "round_half_even t =
     (let f = \<lfloor>t\<rfloor>; d = t - of_int f
      in if d < 1 / 2 then f
         else if d > 1 / 2 then f + 1
         else if even f then f else f + 1)"

fun binade :: "nat \<Rightarrow> real \<Rightarrow> int" where
  "binade 0 x = - 1022"
| "binade (Suc k) x =
     (if 2 powi (int (Suc k) - 1022) \<le> x then int (Suc k) - 1022 else binade k x)"

definition round64 :: "real \<Rightarrow> jsnum" where
  "round64 x =
     (let e = binade 2045 \<bar>x\<bar>;
          q = 2 powi (e - 52);
          y = of_int (round_half_even (x / q)) * q
      in if \<bar>y\<bar> \<ge> 2 ^ 1024 then (if x > 0 then PosInf else NegInf) else Num y)"

fun fl_neg :: "jsnum \<Rightarrow> jsnum" where
  "fl_neg (Num a) = Num (- a)"
| "fl_neg PosInf = NegInf"
| "fl_neg NegInf = PosInf"
| "fl_neg NaN = NaN"

fun fl_add :: "jsnum \<Rightarrow> jsnum \<Rightarrow> jsnum" where
  "fl_add NaN y = NaN"
| "fl_add x NaN = NaN"
| "fl_add (Num a) (Num b) = round64 (a + b)"
| "fl_add PosInf NegInf = NaN"
| "fl_add NegInf PosInf = NaN"
| "fl_add PosInf y = PosInf"
| "fl_add NegInf y = NegInf"
| "fl_add (Num a) y = y"

definition fl_sub :: "jsnum \<Rightarrow> jsnum \<Rightarrow> jsnum" where
  "fl_sub x y = fl_add x (fl_neg y)"

fun fl_mul :: "jsnum \<Rightarrow> jsnum \<Rightarrow> jsnum" where
  "fl_mul NaN y = NaN"
| "fl_mul x NaN = NaN"
| "fl_mul (Num a) (Num b) = round64 (a * b)"
| "fl_mul (Num a) PosInf = (if a = 0 then NaN else if a > 0 then PosInf else NegInf)"
| "fl_mul (Num a) NegInf = (if a = 0 then NaN else if a > 0 then NegInf else PosInf)"
| "fl_mul PosInf (Num b) = (if b = 0 then NaN else if b > 0 then PosInf else NegInf)"
| "fl_mul NegInf (Num b) = (if b = 0 then NaN else if b > 0 then NegInf else PosInf)"
| "fl_mul PosInf PosInf = PosInf"
| "fl_mul PosInf NegInf = NegInf"
| "fl_mul NegInf PosInf = NegInf"
| "fl_mul NegInf NegInf = PosInf"

fun fl_div :: "jsnum \<Rightarrow> jsnum \<Rightarrow> jsnum" where
  "fl_div NaN y = NaN"
| "fl_div x NaN = NaN"
| "fl_div (Num a) (Num b) =
     (if b = 0 then (if a = 0 then NaN else if a > 0 then PosInf else NegInf)
      else round64 (a / b))"
| "fl_div (Num a) y = Num 0"
| "fl_div PosInf (Num b) = (if b \<ge> 0 then PosInf else NegInf)"
| "fl_div NegInf (Num b) = (if b \<ge> 0 then NegInf else PosInf)"
| "fl_div x y = NaN"

fun js_positive :: "jsnum \<Rightarrow> bool" where
  \<comment> \<open>The test \<open>x > 0\<close>, false for \<open>NaN\<close>.\<close>
  "js_positive (Num a) = (a > 0)"
| "js_positive PosInf = True"
| "js_positive NegInf = False"
| "js_positive NaN = False"

fun js_nonpositive :: "jsnum \<Rightarrow> bool" where
  \<comment> \<open>The test \<open>x <= 0\<close>, false for \<open>NaN\<close>.\<close>
  "js_nonpositive (Num a) = (a \<le> 0)"
| "js_nonpositive PosInf = False"
| "js_nonpositive NegInf = True"
| "js_nonpositive NaN = False"

definition Math_pow :: "jsnum \<Rightarrow> jsnum \<Rightarrow> jsnum" where
  "Math_pow base exponent =
     (case exponent of
        NaN \<Rightarrow> NaN
      | PosInf \<Rightarrow>
          (case base of
             NaN \<Rightarrow> NaN
           | PosInf \<Rightarrow> PosInf
           | NegInf \<Rightarrow> PosInf
           | Num b \<Rightarrow> if \<bar>b\<bar> > 1 then PosInf else if \<bar>b\<bar> = 1 then NaN else Num 0)
      | NegInf \<Rightarrow>
          (case base of
             NaN \<Rightarrow> NaN
           | PosInf \<Rightarrow> Num 0
           | NegInf \<Rightarrow> Num 0
           | Num b \<Rightarrow> if \<bar>b\<bar> > 1 then Num 0 else if \<bar>b\<bar> = 1 then NaN else PosInf)
      | Num x \<Rightarrow>
          if x = 0 then Num 1
          else
            (case base of
               NaN \<Rightarrow> NaN
             | PosInf \<Rightarrow> (if x > 0 then PosInf else Num 0)
             | NegInf \<Rightarrow>
                 (if x > 0 then
                    (if x = real_of_int \<lfloor>x\<rfloor> \<and> odd \<lfloor>x\<rfloor> then NegInf else PosInf)
                  else Num 0)
             | Num b \<Rightarrow>
                 if b > 0 then round64 (b powr x)
                 else if b = 0 then (if x > 0 then Num 0 else PosInf)
                 else if x = real_of_int \<lfloor>x\<rfloor> then round64 (power_int b \<lfloor>x\<rfloor>)
                 else NaN))"

subsection \<open>Amortization\<close>

record payment_result =
  monthlyPayment :: jsnum
  totalPayments :: jsnum
  totalInterest :: jsnum
  monthlyRate :: "jsnum option"

text \<open>
  The first two returns of \<open>calculateMonthlyPayment\<close> build an object without the
  field \<open>monthlyRate\<close>; the model has \<open>None\<close> there.
\<close>

definition calculateMonthlyPayment :: "jsnum \<Rightarrow> jsnum \<Rightarrow> jsnum \<Rightarrow> payment_result" where
  "calculateMonthlyPayment principal' annualRate termMonths =
     (if js_nonpositive principal' \<or> js_nonpositive termMonths then
        \<lparr>monthlyPayment = Num 0, totalPayments = Num 0, totalInterest = Num 0,
         monthlyRate = None\<rparr>
      else
        let monthlyRate' = fl_div (fl_div annualRate (Num 100)) (Num 12) in
        if monthlyRate' = Num 0 then
          \<lparr>monthlyPayment = fl_div principal' termMonths,
           totalPayments = principal',
           totalInterest = Num 0,
           monthlyRate = None\<rparr>
        else
          let rateFactor = Math_pow (fl_add (Num 1) monthlyRate') termMonths;
              monthlyPayment' =
                fl_div (fl_mul principal' (fl_mul monthlyRate' rateFactor))
                  (fl_sub rateFactor (Num 1));
              totalPayments' = fl_mul monthlyPayment' termMonths;
              totalInterest' = fl_sub totalPayments' principal'
          in \<lparr>monthlyPayment = monthlyPayment',
              totalPayments = totalPayments',
              totalInterest = totalInterest',
              monthlyRate = Some monthlyRate'\<rparr>)"

record payment_breakdown =
  interestPortion :: jsnum
  principalPortion :: jsnum

definition calculatePaymentBreakdown ::
  "jsnum \<Rightarrow> jsnum \<Rightarrow> jsnum \<Rightarrow> jsnum option \<Rightarrow> payment_breakdown" where
  \<comment> \<open>\<open>currentBalance\<close> defaults to \<open>null\<close>, here \<open>None\<close>.\<close>
  "calculatePaymentBreakdown principal' annualRate monthlyPayment' currentBalance =
     (let balance = (case currentBalance of Some b \<Rightarrow> b | None \<Rightarrow> principal');
          monthlyRate' = fl_div (fl_div annualRate (Num 100)) (Num 12);
          interestPortion' = fl_mul balance monthlyRate';
          principalPortion' = fl_sub monthlyPayment' interestPortion'
      in \<lparr>interestPortion = interestPortion', principalPortion = principalPortion'\<rparr>)"

subsection \<open>Financing source types\<close>

text \<open>
  The entries of \<open>FINANCING_TYPES\<close>, without their \<open>description\<close> texts. A flag or
  ceiling that an entry does not declare reads as \<open>undefined\<close> in the source: here
  \<open>False\<close> for a flag and \<open>None\<close> for a ceiling. The flag \<open>isAutoCalculated\<close> of a
  type is \<open>typeIsAutoCalculated\<close>, to keep it apart from the field of a source. A key
  that is not in the table gives \<open>None\<close>.
\<close>

record type_config =
  label :: string
  requiresRepayment :: bool
  isLoan :: bool
  countsTowardDownPayment :: bool
  typeIsAutoCalculated :: bool
  repaymentYears :: "real option"
  maxContribution :: "real option"
  maxWithdrawal :: "real option"

definition mortgage_type :: type_config where
  "mortgage_type =
     \<lparr>label = ''Bank Mortgage'', requiresRepayment = True, isLoan = True,
      countsTowardDownPayment = False, typeIsAutoCalculated = False,
      repaymentYears = None, maxContribution = None, maxWithdrawal = None\<rparr>"

definition celiapp_type :: type_config where
  "celiapp_type =
     \<lparr>label = ''CELIAPP'', requiresRepayment = False, isLoan = False,
      countsTowardDownPayment = True, typeIsAutoCalculated = False,
      repaymentYears = None, maxContribution = Some 40000, maxWithdrawal = None\<rparr>"

definition rrsp_type :: type_config where
  "rrsp_type =
     \<lparr>label = ''RRSP (Home Buyers' Plan)'', requiresRepayment = True, isLoan = False,
      countsTowardDownPayment = True, typeIsAutoCalculated = False,
      repaymentYears = Some 15, maxContribution = None, maxWithdrawal = Some 60000\<rparr>"

definition tfsa_type :: type_config where
  "tfsa_type =
     \<lparr>label = ''TFSA'', requiresRepayment = False, isLoan = False,
      countsTowardDownPayment = True, typeIsAutoCalculated = False,
      repaymentYears = None, maxContribution = None, maxWithdrawal = None\<rparr>"

definition joint_account_type :: type_config where
  "joint_account_type =
     \<lparr>label = ''Joint Account'', requiresRepayment = False, isLoan = False,
      countsTowardDownPayment = False, typeIsAutoCalculated = False,
      repaymentYears = None, maxContribution = None, maxWithdrawal = None\<rparr>"

definition parents_loan_type :: type_config where
  "parents_loan_type =
     \<lparr>label = ''Parent's Loan'', requiresRepayment = True, isLoan = True,
      countsTowardDownPayment = True, typeIsAutoCalculated = True,
      repaymentYears = None, maxContribution = None, maxWithdrawal = None\<rparr>"

definition other_loan_type :: type_config where
  "other_loan_type =
     \<lparr>label = ''Other Loan'', requiresRepayment = True, isLoan = True,
      countsTowardDownPayment = False, typeIsAutoCalculated = False,
      repaymentYears = None, maxContribution = None, maxWithdrawal = None\<rparr>"

definition other_savings_type :: type_config where
  "other_savings_type =
     \<lparr>label = ''Other Savings'', requiresRepayment = False, isLoan = False,
      countsTowardDownPayment = True, typeIsAutoCalculated = False,
      repaymentYears = None, maxContribution = None, maxWithdrawal = None\<rparr>"

definition FINANCING_TYPES :: "string \<Rightarrow> type_config option" where
  "FINANCING_TYPES key =
     (if key = ''mortgage'' then Some mortgage_type
      else if key = ''celiapp'' then Some celiapp_type
      else if key = ''rrsp'' then Some rrsp_type
      else if key = ''tfsa'' then Some tfsa_type
      else if key = ''joint_account'' then Some joint_account_type
      else if key = ''parents_loan'' then Some parents_loan_type
      else if key = ''other_loan'' then Some other_loan_type
      else if key = ''other_savings'' then Some other_savings_type
      else None)"

subsection \<open>State and page\<close>

text \<open>
  A financing source, with the three fields that the second pass adds (prefixed
  \<open>src_\<close>, absent before). The list \<open>financingSources\<close> keeps a removed source as
  \<open>null\<close>, here \<open>None\<close>. A missing \<open>sourceType\<close> is the empty string, which is no
  key of the table either.

  The page is what the calculation reads from the document: for each number field
  that exists, the value \<open>parseFloat(el.value) || 0\<close>, and for each type selector that
  exists, its value. Texts that the calculation writes to the page are not read again
  in the same run and are left out.
\<close>

record financing_source =
  name :: string
  sourceType :: string
  amount :: real
  rate :: real
  termMonths :: jsnum
  isAutoFillMortgage :: bool
  isAutoCalculated :: bool
  src_monthlyPayment :: "jsnum option"
  src_interestPortion :: "jsnum option"
  src_principalPortion :: "jsnum option"

record warning =
  w_type :: string
  w_source :: string
  w_message :: string

datatype element_id =
    FinancingAmount nat
  | FinancingRate nat
  | FinancingTerm nat
  | OwnerIncome nat
  | OwnerCar nat
  | OwnerStudent nat
  | OwnerPersonal nat
  | OwnerCredit nat

record page =
  numberFields :: "(element_id \<times> real) list"
  financingTypeSelects :: "(nat \<times> string) list"

definition hasElement :: "page \<Rightarrow> element_id \<Rightarrow> bool" where
  "hasElement pg el = (map_of (numberFields pg) el \<noteq> None)"

definition getInputValue :: "page \<Rightarrow> element_id \<Rightarrow> real" where
  "getInputValue pg el = (case map_of (numberFields pg) el of Some v \<Rightarrow> v | None \<Rightarrow> 0)"

definition isAutoFillSlot :: "financing_source option \<Rightarrow> bool" where
  "isAutoFillSlot slot = (case slot of None \<Rightarrow> False | Some s \<Rightarrow> isAutoFillMortgage s)"

definition isGapSlot :: "financing_source option \<Rightarrow> bool" where
  "isGapSlot slot =
     (case slot of None \<Rightarrow> False
      | Some s \<Rightarrow> isAutoCalculated s \<and> sourceType s = ''parents_loan'')"

fun findIndex :: "('a \<Rightarrow> bool) \<Rightarrow> 'a list \<Rightarrow> nat option" where
  "findIndex P [] = None"
| "findIndex P (x # xs) =
     (if P x then Some 0 else map_option Suc (findIndex P xs))"

definition setAmount :: "real \<Rightarrow> financing_source option \<Rightarrow> financing_source option" where
  "setAmount v slot = map_option (\<lambda>s. s\<lparr>amount := v\<rparr>) slot"

definition updateBankMortgageAmount ::
  "page \<Rightarrow> real \<Rightarrow> financing_source option list \<Rightarrow> financing_source option list" where
  "updateBankMortgageAmount pg totalMortgage' financingSources =
     (case findIndex isAutoFillSlot financingSources of
        None \<Rightarrow> financingSources
      | Some mortgageIndex \<Rightarrow>
          if hasElement pg (FinancingAmount mortgageIndex) \<and> totalMortgage' > 0 then
            financingSources
              [mortgageIndex := setAmount totalMortgage' (financingSources ! mortgageIndex)]
          else if hasElement pg (FinancingAmount mortgageIndex) then
            financingSources
              [mortgageIndex := setAmount 0 (financingSources ! mortgageIndex)]
          else financingSources)"

definition updateParentsLoanAmount ::
  "page \<Rightarrow> real \<Rightarrow> financing_source option list \<Rightarrow> financing_source option list" where
  "updateParentsLoanAmount pg gapAmount financingSources =
     (case findIndex isGapSlot financingSources of
        None \<Rightarrow> financingSources
      | Some parentsLoanIndex \<Rightarrow>
          if hasElement pg (FinancingAmount parentsLoanIndex) then
            (if gapAmount > 0 then
               financingSources
                 [parentsLoanIndex := setAmount gapAmount (financingSources ! parentsLoanIndex)]
             else
               financingSources
                 [parentsLoanIndex := setAmount 0 (financingSources ! parentsLoanIndex)])
          else financingSources)"

subsection \<open>First pass\<close>

text \<open>
  A comparison with a ceiling that the type does not declare is false
  (\<open>exceeds\<close>). The messages carry the amounts as \<open>formatCurrency\<close> prints them.
  \<open>firstPass_source\<close> is the body of the first \<open>forEach\<close> of \<open>calculate\<close> for a
  source that is not \<open>null\<close>; the accumulator holds \<open>totalSavingsForDownPayment\<close> and
  \<open>warnings\<close>.
\<close>

definition exceeds :: "real \<Rightarrow> real option \<Rightarrow> bool" where
  "exceeds v ceiling' = (case ceiling' of Some m \<Rightarrow> v > m | None \<Rightarrow> False)"

definition rrspWarning :: warning where
  "rrspWarning =
     \<lparr>w_type = ''warning'', w_source = ''RRSP'',
      w_message = ''Maximum HBP withdrawal is $60,000 per person. You may need to reduce this amount.''\<rparr>"

definition celiappWarning :: warning where
  "celiappWarning =
     \<lparr>w_type = ''warning'', w_source = ''CELIAPP'',
      w_message = ''Maximum CELIAPP contribution is $40,000. Amount exceeds limit.''\<rparr>"

definition resolveSourceType :: "page \<Rightarrow> nat \<Rightarrow> financing_source \<Rightarrow> string" where
  "resolveSourceType pg index source =
     (if sourceType source \<noteq> [] then sourceType source
      else (case map_of (financingTypeSelects pg) index of Some v \<Rightarrow> v | None \<Rightarrow> []))"

definition resolveAmount :: "page \<Rightarrow> nat \<Rightarrow> financing_source \<Rightarrow> real" where
  "resolveAmount pg index source =
     (if (case FINANCING_TYPES (resolveSourceType pg index source) of
            Some typeConfig \<Rightarrow> typeIsAutoCalculated typeConfig | None \<Rightarrow> False)
      then 0
      else if isAutoFillMortgage source then amount source
      else getInputValue pg (FinancingAmount index))"

definition firstPass_source ::
  "page \<Rightarrow> nat \<Rightarrow> financing_source \<Rightarrow> real \<times> warning list
     \<Rightarrow> financing_source \<times> real \<times> warning list" where
  "firstPass_source pg index source acc =
     (case acc of (totalSavingsForDownPayment, warnings) \<Rightarrow>
        let sourceType' = resolveSourceType pg index source;
            typeConfig = FINANCING_TYPES sourceType';
            amount' = resolveAmount pg index source;
            source' = source\<lparr>amount := amount', sourceType := sourceType'\<rparr>
        in (case typeConfig of
              None \<Rightarrow> (source', totalSavingsForDownPayment, warnings)
            | Some tc \<Rightarrow>
                if countsTowardDownPayment tc \<and> \<not> typeIsAutoCalculated tc \<and> amount' > 0 then
                  (source',
                   totalSavingsForDownPayment + amount',
                   warnings
                     @ (if sourceType' = ''rrsp'' \<and> amount' > 0
                           \<and> exceeds amount' (maxWithdrawal rrsp_type)
                        then [rrspWarning] else [])
                     @ (if sourceType' = ''celiapp''
                           \<and> exceeds amount' (maxContribution celiapp_type)
                        then [celiappWarning] else []))
                else (source', totalSavingsForDownPayment, warnings)))"

fun firstPass_loop ::
  "page \<Rightarrow> nat \<Rightarrow> financing_source option list \<Rightarrow> real \<times> warning list
     \<Rightarrow> financing_source option list \<times> real \<times> warning list" where
  "firstPass_loop pg index [] acc = ([], acc)"
| "firstPass_loop pg index (None # rest) acc =
     (case firstPass_loop pg (Suc index) rest acc of
        (rest', acc') \<Rightarrow> (None # rest', acc'))"
| "firstPass_loop pg index (Some source # rest) acc =
     (case firstPass_source pg index source acc of
        (source', acc') \<Rightarrow>
          (case firstPass_loop pg (Suc index) rest acc' of
             (rest', acc'') \<Rightarrow> (Some source' # rest', acc'')))"

definition firstPass ::
  "page \<Rightarrow> financing_source option list
     \<Rightarrow> financing_source option list \<times> real \<times> warning list" where
  "firstPass pg financingSources = firstPass_loop pg 0 financingSources (0, [])"

subsection \<open>Second pass\<close>

text \<open>
  The body of the second \<open>forEach\<close> and its accumulators. The term in months, the
  payment of a loan and the totals are doubles and may be infinite or \<open>NaN\<close>: the
  source stores such a payment on the loan, adds it to the totals when it is \<open>> 0\<close>,
  and goes on to the next source. The amounts and the monthly RRSP repayment, an
  amount divided by 15 and by 12, are real numbers.
\<close>

record loan_detail =
  loan_name :: string
  loan_sourceType :: string
  loan_interest :: jsnum
  loan_principal :: jsnum
  loan_amount :: real
  loan_rate :: real
  loan_termMonths :: jsnum
  loan_monthlyPayment :: jsnum

record loan_totals =
  totalMonthlyLoanPayment :: jsnum
  totalInterestFirstMonth :: jsnum
  totalPrincipalFirstMonth :: jsnum
  loanPaymentDetails :: "loan_detail list"
  rrspMonthlyRepayment :: real

definition secondPass_source ::
  "page \<Rightarrow> nat \<Rightarrow> financing_source \<Rightarrow> loan_totals \<Rightarrow> financing_source \<times> loan_totals" where
  "secondPass_source pg index source acc =
     (case FINANCING_TYPES (sourceType source) of
        None \<Rightarrow> (source, acc)
      | Some typeConfig \<Rightarrow>
          if isLoan typeConfig \<and> amount source > 0 then
            let rate' = getInputValue pg (FinancingRate index);
                termYears = getInputValue pg (FinancingTerm index);
                termMonths' = fl_mul (Num termYears) (Num 12);
                payment = calculateMonthlyPayment (Num (amount source)) (Num rate') termMonths';
                split = calculatePaymentBreakdown (Num (amount source)) (Num rate')
                          (monthlyPayment payment) None;
                source' = source
                  \<lparr>rate := rate',
                   termMonths := termMonths',
                   src_monthlyPayment := Some (monthlyPayment payment),
                   src_interestPortion := Some (interestPortion split),
                   src_principalPortion := Some (principalPortion split)\<rparr>
            in if js_positive (monthlyPayment payment) then
                 (source',
                  acc\<lparr>totalMonthlyLoanPayment :=
                        fl_add (totalMonthlyLoanPayment acc) (monthlyPayment payment),
                      totalInterestFirstMonth :=
                        fl_add (totalInterestFirstMonth acc) (interestPortion split),
                      totalPrincipalFirstMonth :=
                        fl_add (totalPrincipalFirstMonth acc) (principalPortion split),
                      loanPaymentDetails :=
                        loanPaymentDetails acc @
                          [\<lparr>loan_name = name source,
                            loan_sourceType = sourceType source,
                            loan_interest = interestPortion split,
                            loan_principal = principalPortion split,
                            loan_amount = amount source,
                            loan_rate = rate',
                            loan_termMonths = termMonths',
                            loan_monthlyPayment = monthlyPayment payment\<rparr>]\<rparr>)
               else (source', acc)
          else if sourceType source = ''rrsp'' \<and> amount source > 0 then
            (source, acc\<lparr>rrspMonthlyRepayment := (amount source / 15) / 12\<rparr>)
          else (source, acc))"

fun secondPass_loop ::
  "page \<Rightarrow> nat \<Rightarrow> financing_source option list \<Rightarrow> loan_totals
     \<Rightarrow> financing_source option list \<times> loan_totals" where
  "secondPass_loop pg index [] acc = ([], acc)"
| "secondPass_loop pg index (None # rest) acc =
     (case secondPass_loop pg (Suc index) rest acc of
        (rest', acc') \<Rightarrow> (None # rest', acc'))"
| "secondPass_loop pg index (Some source # rest) acc =
     (case secondPass_source pg index source acc of
        (source', acc') \<Rightarrow>
          (case secondPass_loop pg (Suc index) rest acc' of
             (rest', acc'') \<Rightarrow> (Some source' # rest', acc'')))"

definition secondPass ::
  "page \<Rightarrow> financing_source option list \<Rightarrow> financing_source option list \<times> loan_totals" where
  "secondPass pg financingSources =
     secondPass_loop pg 0 financingSources
       \<lparr>totalMonthlyLoanPayment = Num 0, totalInterestFirstMonth = Num 0,
        totalPrincipalFirstMonth = Num 0, loanPaymentDetails = [],
        rrspMonthlyRepayment = 0\<rparr>"

subsection \<open>The financing part of calculate\<close>

text \<open>
  From the insurance result to the end of the second pass: the auto-fill of the bank
  mortgage, the first pass, the gap and the second pass.
\<close>

record financing_result =
  financingSources_out :: "financing_source option list"
  totalSavingsForDownPayment_out :: real
  downPaymentGap :: real
  warnings_out :: "warning list"
  loans_out :: loan_totals

definition calculate_financing ::
  "page \<Rightarrow> real \<Rightarrow> real \<Rightarrow> bool \<Rightarrow> financing_source option list \<Rightarrow> financing_result" where
  "calculate_financing pg offerPrice downPayment is30Year financingSources =
     (let cmhc = calculateCmhc offerPrice downPayment is30Year;
          sources0 = updateBankMortgageAmount pg (totalMortgage cmhc) financingSources
      in (case firstPass pg sources0 of
            (sources1, totalSavingsForDownPayment, warnings) \<Rightarrow>
              let downPaymentGap' = max 0 (downPayment - totalSavingsForDownPayment);
                  sources2 = updateParentsLoanAmount pg downPaymentGap' sources1
              in (case secondPass pg sources2 of
                    (sources3, loans) \<Rightarrow>
                      \<lparr>financingSources_out = sources3,
                       totalSavingsForDownPayment_out = totalSavingsForDownPayment,
                       downPaymentGap = downPaymentGap',
                       warnings_out = warnings,
                       loans_out = loans\<rparr>)))"

subsection \<open>Household members and per-person ratios\<close>

text \<open>
  The loop of \<open>calculate\<close> over \<open>owners\<close> reads the income and the debt payments of
  each present member from the page and collects \<open>ownerData\<close>; the sums are sums of
  doubles. \<open>updatePerPersonRatios\<close> returns what it writes to its container, which is
  on the page: the message that asks for household members, or one card per member.
  \<open>updateAffordabilityBars\<close> returns the household bar and that content.
  \<open>calculate_affordability\<close> is the part of \<open>calculate\<close> from the loop over the owners
  to the call of \<open>updateAffordabilityBars\<close>; the monthly costs, the loan payments,
  the monthly city taxes, the electricity and the RRSP repayment that \<open>calculate\<close>
  has at that point are its arguments.
\<close>

fun js_le :: "jsnum \<Rightarrow> jsnum \<Rightarrow> bool" where
  \<comment> \<open>The test \<open>x <= y\<close>, false when either side is \<open>NaN\<close>.\<close>
  "js_le NaN y = False"
| "js_le x NaN = False"
| "js_le (Num a) (Num b) = (a \<le> b)"
| "js_le NegInf y = True"
| "js_le x PosInf = True"
| "js_le x y = False"

record owner =
  owner_name :: string
  income :: real
  carLoanPayment :: real
  studentLoanPayment :: real
  personalLoanPayment :: real
  creditCardPayment :: real

record owner_data =
  od_index :: nat
  od_name :: string
  od_income :: real
  od_totalDebts :: jsnum
  od_carLoan :: real
  od_studentLoan :: real
  od_personalLoan :: real
  od_creditCard :: real

definition owners_owner ::
  "page \<Rightarrow> nat \<Rightarrow> owner \<Rightarrow> jsnum \<times> jsnum \<times> owner_data list
     \<Rightarrow> owner \<times> jsnum \<times> jsnum \<times> owner_data list" where
  "owners_owner pg index owner' acc =
     (case acc of (totalGrossIncome, totalOtherDebtPayments, ownerData) \<Rightarrow>
        let income' = getInputValue pg (OwnerIncome index);
            carLoan = getInputValue pg (OwnerCar index);
            studentLoan = getInputValue pg (OwnerStudent index);
            personalLoan = getInputValue pg (OwnerPersonal index);
            creditCard = getInputValue pg (OwnerCredit index);
            totalDebts =
              fl_add (fl_add (fl_add (Num carLoan) (Num studentLoan)) (Num personalLoan))
                (Num creditCard)
        in (owner'\<lparr>income := income',
                   carLoanPayment := carLoan,
                   studentLoanPayment := studentLoan,
                   personalLoanPayment := personalLoan,
                   creditCardPayment := creditCard\<rparr>,
            fl_add totalGrossIncome (Num income'),
            fl_add totalOtherDebtPayments totalDebts,
            ownerData @
              [\<lparr>od_index = index, od_name = owner_name owner', od_income = income',
                od_totalDebts = totalDebts, od_carLoan = carLoan,
                od_studentLoan = studentLoan, od_personalLoan = personalLoan,
                od_creditCard = creditCard\<rparr>]))"

fun owners_loop ::
  "page \<Rightarrow> nat \<Rightarrow> owner option list \<Rightarrow> jsnum \<times> jsnum \<times> owner_data list
     \<Rightarrow> owner option list \<times> jsnum \<times> jsnum \<times> owner_data list" where
  "owners_loop pg index [] acc = ([], acc)"
| "owners_loop pg index (None # rest) acc =
     (case owners_loop pg (Suc index) rest acc of
        (rest', acc') \<Rightarrow> (None # rest', acc'))"
| "owners_loop pg index (Some owner' # rest) acc =
     (case owners_owner pg index owner' acc of
        (owner'', acc') \<Rightarrow>
          (case owners_loop pg (Suc index) rest acc' of
             (rest', acc'') \<Rightarrow> (Some owner'' # rest', acc'')))"

record ratio_card =
  card_name :: string
  incomeShare :: jsnum
  housingCostShare :: jsnum
  gdsRatio :: jsnum
  gdsStatus :: string
  tdsAmount :: jsnum
  tdsRatio :: jsnum
  tdsStatus :: string

datatype per_person_view = AddMembersMessage | RatioCards "ratio_card list"

definition ratioCard :: "jsnum \<Rightarrow> jsnum \<Rightarrow> jsnum \<Rightarrow> owner_data \<Rightarrow> ratio_card" where
  "ratioCard totalGrossIncome gdsHousingCosts rrspPerPerson owner' =
     (let incomeShare' = fl_div (Num (od_income owner')) totalGrossIncome;
          housingCostShare' = fl_mul gdsHousingCosts incomeShare';
          gdsRatio' = (if od_income owner' > 0
                       then fl_mul (fl_div housingCostShare' (Num (od_income owner'))) (Num 100)
                       else Num 0);
          gdsStatus' = (if js_le gdsRatio' (Num 32) then ''Excellent''
                        else if js_le gdsRatio' (Num 39) then ''Acceptable''
                        else ''May Not Qualify'');
          tdsAmount' = fl_add (fl_add housingCostShare' (od_totalDebts owner')) rrspPerPerson;
          tdsRatio' = (if od_income owner' > 0
                       then fl_mul (fl_div tdsAmount' (Num (od_income owner'))) (Num 100)
                       else Num 0);
          tdsStatus' = (if js_le tdsRatio' (Num 40) then ''Excellent''
                        else if js_le tdsRatio' (Num 44) then ''Acceptable''
                        else ''May Not Qualify'')
      in \<lparr>card_name = od_name owner', incomeShare = incomeShare',
          housingCostShare = housingCostShare', gdsRatio = gdsRatio',
          gdsStatus = gdsStatus', tdsAmount = tdsAmount', tdsRatio = tdsRatio',
          tdsStatus = tdsStatus'\<rparr>)"

definition updatePerPersonRatios ::
  "owner_data list \<Rightarrow> jsnum \<Rightarrow> jsnum \<Rightarrow> jsnum \<Rightarrow> per_person_view" where
  "updatePerPersonRatios ownerData totalGrossIncome gdsHousingCosts rrspMonthlyRepayment' =
     (if ownerData = [] \<or> js_nonpositive totalGrossIncome then AddMembersMessage
      else
        let rrspPerPerson = fl_div rrspMonthlyRepayment' (Num (real (length ownerData)))
        in RatioCards (map (ratioCard totalGrossIncome gdsHousingCosts rrspPerPerson) ownerData))"

record affordability_data =
  d_totalMonthlyCosts :: jsnum
  d_totalGrossIncome :: jsnum
  d_mortgagePayment :: jsnum
  d_propertyTax :: jsnum
  d_heating :: jsnum
  d_otherDebtPayments :: jsnum
  d_ownerData :: "owner_data list"
  d_rrspMonthlyRepayment :: jsnum

record affordability_bars =
  housingCostPercent :: jsnum
  housingCostStatus :: string
  perPersonRatios :: per_person_view

definition updateAffordabilityBars :: "affordability_data \<Rightarrow> affordability_bars" where
  "updateAffordabilityBars data' =
     (if js_nonpositive (d_totalGrossIncome data') then
        \<lparr>housingCostPercent = Num 0, housingCostStatus = ''-'',
         perPersonRatios = updatePerPersonRatios [] (Num 0) (Num 0) (Num 0)\<rparr>
      else
        let housingCostRatio =
              fl_mul (fl_div (d_totalMonthlyCosts data') (d_totalGrossIncome data')) (Num 100);
            housingCostStatus' =
              (if js_le housingCostRatio (Num 30) then ''Affordable''
               else if js_le housingCostRatio (Num 40) then ''Caution'' else ''High Risk'');
            gdsHousingCosts =
              fl_add (fl_add (d_mortgagePayment data') (d_propertyTax data')) (d_heating data')
        in \<lparr>housingCostPercent = housingCostRatio,
            housingCostStatus = housingCostStatus',
            perPersonRatios =
              updatePerPersonRatios (d_ownerData data') (d_totalGrossIncome data')
                gdsHousingCosts (d_rrspMonthlyRepayment data')\<rparr>)"

definition calculate_affordability ::
  "page \<Rightarrow> owner option list \<Rightarrow> jsnum \<Rightarrow> jsnum \<Rightarrow> jsnum \<Rightarrow> jsnum \<Rightarrow> jsnum
     \<Rightarrow> affordability_bars" where
  "calculate_affordability pg owners totalMonthlyCosts totalMonthlyLoanPayment'
       cityTaxesMonthly electricity rrspMonthlyRepayment' =
     (case owners_loop pg 0 owners (Num 0, Num 0, []) of
        (owners', totalGrossIncome, totalOtherDebtPayments, ownerData) \<Rightarrow>
          updateAffordabilityBars
            \<lparr>d_totalMonthlyCosts = totalMonthlyCosts,
             d_totalGrossIncome = totalGrossIncome,
             d_mortgagePayment = totalMonthlyLoanPayment',
             d_propertyTax = cityTaxesMonthly,
             d_heating = electricity,
             d_otherDebtPayments = totalOtherDebtPayments,
             d_ownerData = ownerData,
             d_rrspMonthlyRepayment = rrspMonthlyRepayment'\<rparr>)"

subsection \<open>Closed forms used in the proofs\<close>

text \<open>The welcome tax as a sum of the parts of the price in each bracket.\<close>

definition welcomeTax_closed :: "real \<Rightarrow> real" where
  "welcomeTax_closed p =
     0.005 * min p 55200
     + 0.010 * max 0 (min p 276200 - 55200)
     + 0.015 * max 0 (min p 500000 - 276200)
     + 0.020 * max 0 (min p 1000000 - 500000)
     + 0.025 * max 0 (p - 1000000)"

subsection \<open>Reference definitions for the statements\<close>

text \<open>
  The sources that are present, and whether the type of a source counts toward the down
  payment. The auto-fill mortgage slot is the source of type mortgage that carries the
  flag \<open>isAutoFillMortgage\<close>; the gap slot is the one \<open>updateParentsLoanAmount\<close> looks
  for. \<open>claimedSavings\<close> is the sum of the amounts of the counting sources other than
  the gap slot and the auto-fill mortgage slot, and \<open>positiveSavings\<close> is the same sum
  over the strictly positive amounts only.
\<close>

definition presentSlots :: "'a option list \<Rightarrow> 'a list" where
  "presentSlots slots = concat (map (\<lambda>slot. case slot of Some s \<Rightarrow> [s] | None \<Rightarrow> []) slots)"

definition countsForDownPayment :: "financing_source \<Rightarrow> bool" where
  "countsForDownPayment s =
     (case FINANCING_TYPES (sourceType s) of
        Some tc \<Rightarrow> countsTowardDownPayment tc | None \<Rightarrow> False)"

definition isAutoFillMortgageSlot :: "financing_source \<Rightarrow> bool" where
  "isAutoFillMortgageSlot s = (isAutoFillMortgage s \<and> sourceType s = ''mortgage'')"


definition positiveSavings :: "financing_source option list \<Rightarrow> real" where
  "positiveSavings slots =
     sum_list (map amount
       (filter (\<lambda>s. countsForDownPayment s \<and> \<not> isGapSlot (Some s)
                   \<and> \<not> isAutoFillMortgageSlot s \<and> amount s > 0)
          (presentSlots slots)))"

definition savingOf :: "financing_source \<Rightarrow> real" where
  "savingOf s =
     (if countsForDownPayment s \<and> \<not> isGapSlot (Some s) \<and> \<not> isAutoFillMortgageSlot s
         \<and> amount s > 0
      then amount s else 0)"





text \<open>
  The first pass and the financing part of \<open>calculate\<close> with the ceiling checks and
  the warnings left out; the numbers in the result of \<open>calculate_financing\<close>; the
  warnings that the ceilings call for; the positive amounts of the RRSP sources in the
  order of the list.
\<close>

definition firstPass_silent_source ::
  "page \<Rightarrow> nat \<Rightarrow> financing_source \<Rightarrow> real \<Rightarrow> financing_source \<times> real" where
  "firstPass_silent_source pg index source totalSavingsForDownPayment =
     (let sourceType' = resolveSourceType pg index source;
          typeConfig = FINANCING_TYPES sourceType';
          amount' = resolveAmount pg index source;
          source' = source\<lparr>amount := amount', sourceType := sourceType'\<rparr>
      in (case typeConfig of
            None \<Rightarrow> (source', totalSavingsForDownPayment)
          | Some tc \<Rightarrow>
              if countsTowardDownPayment tc \<and> \<not> typeIsAutoCalculated tc \<and> amount' > 0 then
                (source', totalSavingsForDownPayment + amount')
              else (source', totalSavingsForDownPayment)))"

fun firstPass_silent_loop ::
  "page \<Rightarrow> nat \<Rightarrow> financing_source option list \<Rightarrow> real
     \<Rightarrow> financing_source option list \<times> real" where
  "firstPass_silent_loop pg index [] acc = ([], acc)"
| "firstPass_silent_loop pg index (None # rest) acc =
     (case firstPass_silent_loop pg (Suc index) rest acc of
        (rest', acc') \<Rightarrow> (None # rest', acc'))"
| "firstPass_silent_loop pg index (Some source # rest) acc =
     (case firstPass_silent_source pg index source acc of
        (source', acc') \<Rightarrow>
          (case firstPass_silent_loop pg (Suc index) rest acc' of
             (rest', acc'') \<Rightarrow> (Some source' # rest', acc'')))"

definition calculate_financing_silent ::
  "page \<Rightarrow> real \<Rightarrow> real \<Rightarrow> bool \<Rightarrow> financing_source option list
     \<Rightarrow> financing_source option list \<times> real \<times> real \<times> loan_totals" where
  "calculate_financing_silent pg offerPrice downPayment is30Year financingSources =
     (let cmhc = calculateCmhc offerPrice downPayment is30Year;
          sources0 = updateBankMortgageAmount pg (totalMortgage cmhc) financingSources
      in (case firstPass_silent_loop pg 0 sources0 0 of
            (sources1, totalSavingsForDownPayment) \<Rightarrow>
              let downPaymentGap' = max 0 (downPayment - totalSavingsForDownPayment);
                  sources2 = updateParentsLoanAmount pg downPaymentGap' sources1
              in (case secondPass pg sources2 of
                    (sources3, loans) \<Rightarrow>
                      (sources3, totalSavingsForDownPayment, downPaymentGap', loans))))"

definition numericOutputs ::
  "financing_result \<Rightarrow> financing_source option list \<times> real \<times> real \<times> loan_totals" where
  "numericOutputs r =
     (financingSources_out r, totalSavingsForDownPayment_out r, downPaymentGap r, loans_out r)"

definition ceilingWarnings :: "financing_source option \<Rightarrow> warning list" where
  "ceilingWarnings slot =
     (case slot of None \<Rightarrow> []
      | Some s \<Rightarrow>
          (if sourceType s = ''rrsp'' \<and> amount s > 60000 then [rrspWarning] else [])
          @ (if sourceType s = ''celiapp'' \<and> amount s > 40000 then [celiappWarning] else []))"

definition rrspAmounts :: "financing_source option list \<Rightarrow> real list" where
  "rrspAmounts slots =
     map amount (filter (\<lambda>s. sourceType s = ''rrsp'' \<and> amount s > 0) (presentSlots slots))"

text \<open>
  The combined income computed by the loop over the owners, the incomes it reads, and
  the housing-cost shares on the cards. A share is a double; \<open>isFinite\<close> holds for a
  number that is neither infinite nor \<open>NaN\<close> and \<open>valueOf\<close> is its value.
  \<open>roundingBound n g a t\<close> bounds the distance between the sum of \<open>n\<close> shares and
  the shared cost \<open>g\<close>, where \<open>a\<close> is the sum of the absolute incomes and \<open>t\<close> the
  combined income: an operation on doubles with a finite result has an error of at
  most \<open>halfUlp\<close> times the exact result plus \<open>halfTiny\<close>, half the distance between
  the doubles near zero.
\<close>

definition householdIncome :: "page \<Rightarrow> owner option list \<Rightarrow> jsnum" where
  "householdIncome pg owners = fst (snd (owners_loop pg 0 owners (Num 0, Num 0, [])))"

definition memberIncomes :: "page \<Rightarrow> owner option list \<Rightarrow> real list" where
  "memberIncomes pg owners =
     map od_income (snd (snd (snd (owners_loop pg 0 owners (Num 0, Num 0, [])))))"

definition housingShares :: "per_person_view \<Rightarrow> jsnum list" where
  "housingShares v =
     (case v of AddMembersMessage \<Rightarrow> [] | RatioCards cards \<Rightarrow> map housingCostShare cards)"

fun isFinite :: "jsnum \<Rightarrow> bool" where
  "isFinite (Num a) = True"
| "isFinite x = False"

fun valueOf :: "jsnum \<Rightarrow> real" where
  "valueOf (Num a) = a"
| "valueOf x = 0"

definition halfUlp :: real where
  "halfUlp = 2 powi (- 53)"

definition halfTiny :: real where
  "halfTiny = 2 powi (- 1075)"

definition roundingBound :: "nat \<Rightarrow> real \<Rightarrow> real \<Rightarrow> real \<Rightarrow> real" where
  "roundingBound n g a t =
     \<bar>g\<bar> * (a / t) * ((1 + halfUlp) ^ (n + 2) - 1)
     + real n * halfTiny * (1 + \<bar>g\<bar> * (1 + halfUlp) ^ (n + 2) * (1 + 1 / t))"

subsection \<open>Example inputs\<close>

definition newSource :: "string \<Rightarrow> string \<Rightarrow> bool \<Rightarrow> bool \<Rightarrow> financing_source" where
  "newSource n t autoFill autoCalc =
     \<lparr>name = n, sourceType = t, amount = 0, rate = 0, termMonths = Num 0,
      isAutoFillMortgage = autoFill, isAutoCalculated = autoCalc,
      src_monthlyPayment = None, src_interestPortion = None, src_principalPortion = None\<rparr>"






definition ceiling_sources :: "financing_source option list" where
  "ceiling_sources =
     [Some (newSource ''RRSP'' ''rrsp'' False False),
      Some (newSource ''CELIAPP'' ''celiapp'' False False)]"

definition ceiling_page :: page where
  "ceiling_page =
     \<lparr>numberFields = [(FinancingAmount 0, 70000), (FinancingAmount 1, 30000)],
      financingTypeSelects = []\<rparr>"

text \<open>
  A list with a loan whose payment is not finite (an annual rate of -2400 over half a
  year), two RRSP sources and a removed source between them; the list after the first
  pass and after the second pass.
\<close>

definition runaway_sources :: "financing_source option list" where
  "runaway_sources =
     [Some (newSource ''Other Loan'' ''other_loan'' False False),
      Some (newSource ''RRSP 1'' ''rrsp'' False False),
      None,
      Some (newSource ''RRSP 2'' ''rrsp'' False False)]"

definition runaway_page :: page where
  "runaway_page =
     \<lparr>numberFields =
        [(FinancingAmount 0, 1000), (FinancingRate 0, - 2400), (FinancingTerm 0, 1 / 2),
         (FinancingAmount 1, 70000), (FinancingAmount 3, 36000)],
      financingTypeSelects = []\<rparr>"

definition runaway_first_pass :: "financing_source option list" where
  "runaway_first_pass =
     [Some ((newSource ''Other Loan'' ''other_loan'' False False)\<lparr>amount := 1000\<rparr>),
      Some ((newSource ''RRSP 1'' ''rrsp'' False False)\<lparr>amount := 70000\<rparr>),
      None,
      Some ((newSource ''RRSP 2'' ''rrsp'' False False)\<lparr>amount := 36000\<rparr>)]"

definition runaway_second_pass :: "financing_source option list" where
  "runaway_second_pass =
     [Some ((newSource ''Other Loan'' ''other_loan'' False False)
        \<lparr>amount := 1000, rate := - 2400, termMonths := Num 6,
         src_monthlyPayment := Some NegInf,
         src_interestPortion := Some (Num (- 2000)),
         src_principalPortion := Some NegInf\<rparr>),
      Some ((newSource ''RRSP 1'' ''rrsp'' False False)\<lparr>amount := 70000\<rparr>),
      None,
      Some ((newSource ''RRSP 2'' ''rrsp'' False False)\<lparr>amount := 36000\<rparr>)]"

definition runaway_totals :: loan_totals where
  "runaway_totals =
     \<lparr>totalMonthlyLoanPayment = Num 0, totalInterestFirstMonth = Num 0,
      totalPrincipalFirstMonth = Num 0, loanPaymentDetails = [],
      rrspMonthlyRepayment = 200\<rparr>"

definition example_owners :: "owner option list" where
  "example_owners =
     [Some \<lparr>owner_name = ''Person 1'', income = 0, carLoanPayment = 0,
            studentLoanPayment = 0, personalLoanPayment = 0, creditCardPayment = 0\<rparr>,
      None,
      Some \<lparr>owner_name = ''Person 2'', income = 0, carLoanPayment = 0,
            studentLoanPayment = 0, personalLoanPayment = 0, creditCardPayment = 0\<rparr>]"

definition owners_page :: page where
  "owners_page =
     \<lparr>numberFields = [(OwnerIncome 0, 2000), (OwnerIncome 2, 4000), (OwnerCar 2, 400)],
      financingTypeSelects = []\<rparr>"

section \<open>Properties\<close>

subsection \<open>Mortgage insurance\<close>

text \<open>
  C1. For every purchase price and down payment, \<open>calculateCmhc\<close> reports the
  insurance as required exactly when the loan-to-value ratio is strictly greater than
  0.80, so at exactly 0.80 it is not required; and when it is not required the premium
  and the provincial tax on it are zero, while the result still carries the
  loan-to-value ratio and the mortgage amount.
\<close>

theorem calculateCmhc_required_iff:
  "(cmhcRequired (calculateCmhc purchasePrice downPayment is30Year)
      \<longleftrightarrow> calculateLtv purchasePrice downPayment > 0.80)
   \<and> (calculateLtv purchasePrice downPayment = 0.80
      \<longrightarrow> \<not> cmhcRequired (calculateCmhc purchasePrice downPayment is30Year))
   \<and> (\<not> cmhcRequired (calculateCmhc purchasePrice downPayment is30Year)
      \<longrightarrow> cmhcPremium (calculateCmhc purchasePrice downPayment is30Year) = 0
        \<and> quebecTax (calculateCmhc purchasePrice downPayment is30Year) = 0
        \<and> ltv (calculateCmhc purchasePrice downPayment is30Year)
            = calculateLtv purchasePrice downPayment
        \<and> mortgageAmount (calculateCmhc purchasePrice downPayment is30Year)
            = purchasePrice - downPayment)"
  by (simp add: calculateCmhc_def Let_def)

theorem calculateCmhc_required_iff_witness:
  "calculateLtv 500000 100000 = 0.80
   \<and> \<not> cmhcRequired (calculateCmhc 500000 100000 False)
   \<and> cmhcPremium (calculateCmhc 500000 100000 False) = 0
   \<and> quebecTax (calculateCmhc 500000 100000 False) = 0
   \<and> ltv (calculateCmhc 500000 100000 False) = 0.80
   \<and> mortgageAmount (calculateCmhc 500000 100000 False) = 400000
   \<and> cmhcRequired (calculateCmhc 500000 50000 False)"
  using calculateCmhc_required_iff [of 500000 100000 False]
        calculateCmhc_required_iff [of 500000 50000 False]
  by (simp add: calculateLtv_def)

text \<open>
  C7. Above the ceiling of the last bracket (a loan-to-value ratio strictly greater than
  0.95) no bracket matches: \<open>getCmhcRate\<close> returns 0 without the 30-year flag and
  exactly the surcharge 0.0020 with it. \<open>calculateCmhc\<close> then reports the insurance
  as required and computes the premium from that rate, which is not the rate 0.0400 of
  the highest bracket.
\<close>

theorem getCmhcRate_above_table:
  "(l > 0.95 \<longrightarrow> getCmhcRate l False = 0 \<and> getCmhcRate l True = 0.0020)
   \<and> (calculateLtv purchasePrice downPayment > 0.95 \<longrightarrow>
        cmhcRequired (calculateCmhc purchasePrice downPayment is30Year)
        \<and> premiumRate (calculateCmhc purchasePrice downPayment is30Year)
            = (if is30Year then 0.0020 else 0)
        \<and> cmhcPremium (calculateCmhc purchasePrice downPayment is30Year)
            = (purchasePrice - downPayment) * (if is30Year then 0.0020 else 0)
        \<and> premiumRate (calculateCmhc purchasePrice downPayment is30Year) < 0.0400)"
  by (simp add: calculateCmhc_def getCmhcRate_def CMHC_RATES_def
        CMHC_30_YEAR_SURCHARGE_def Let_def)

theorem getCmhcRate_above_table_witness:
  "(0.97::real) > 0.95 \<and> getCmhcRate 0.97 False = 0 \<and> getCmhcRate 0.97 True = 0.0020
   \<and> calculateLtv 100000 3000 > 0.95
   \<and> cmhcRequired (calculateCmhc 100000 3000 True)
   \<and> premiumRate (calculateCmhc 100000 3000 True) = 0.0020
   \<and> cmhcPremium (calculateCmhc 100000 3000 True) = 194
   \<and> cmhcPremium (calculateCmhc 100000 3000 False) = 0"
  using getCmhcRate_above_table
          [where l = "0.97" and purchasePrice = 100000 and downPayment = 3000
             and is30Year = True]
        getCmhcRate_above_table
          [where l = "0.97" and purchasePrice = 100000 and downPayment = 3000
             and is30Year = False]
  by (simp add: calculateLtv_def)

subsection \<open>Rounding to doubles\<close>

lemma binade_bounds:
  "- 1022 \<le> binade k x \<and> binade k x \<le> int k - 1022
   \<and> (- 1022 < binade k x \<longrightarrow> 2 powi (binade k x) \<le> x)
   \<and> (binade k x < int k - 1022 \<longrightarrow> x < 2 powi (binade k x + 1))"
proof (induction k)
  case 0
  then show ?case by simp
next
  case (Suc k)
  show ?case
  proof (cases "2 powi (int (Suc k) - 1022) \<le> x")
    case True
    then show ?thesis by simp
  next
    case False
    then have b: "binade (Suc k) x = binade k x" by simp
    have lt: "x < 2 powi (int k - 1022 + 1)"
      using False by (simp add: algebra_simps)
    show ?thesis
    proof (cases "binade k x < int k - 1022")
      case True
      with Suc b show ?thesis by auto
    next
      case False
      with Suc have "binade k x = int k - 1022" by auto
      with Suc b lt show ?thesis by auto
    qed
  qed
qed

lemma binade_eq:
  assumes "2 powi e \<le> x" "x < 2 powi (e + 1)" "- 1022 \<le> e" "e \<le> 1023"
  shows "binade 2045 x = e"
proof -
  let ?b = "binade 2045 x"
  from binade_bounds [of 2045 x] have
    l: "- 1022 < ?b \<longrightarrow> 2 powi ?b \<le> x"
    and u: "?b < 1023 \<longrightarrow> x < 2 powi (?b + 1)"
    by simp_all
  have "\<not> e < ?b"
  proof
    assume a: "e < ?b"
    then have "2 powi ?b \<le> x" using l assms(3) by simp
    moreover have "(2::real) powi (e + 1) \<le> 2 powi ?b"
      using a by (intro power_int_increasing) simp_all
    ultimately show False using assms(2) by simp
  qed
  moreover have "\<not> ?b < e"
  proof
    assume a: "?b < e"
    then have "x < 2 powi (?b + 1)" using u assms(4) by simp
    moreover have "(2::real) powi (?b + 1) \<le> 2 powi e"
      using a by (intro power_int_increasing) simp_all
    ultimately show False using assms(1) by simp
  qed
  ultimately show ?thesis by simp
qed

lemma round_half_even_int [simp]: "round_half_even (of_int k) = k"
  by (simp add: round_half_even_def)

lemma round64_zero [simp]: "round64 0 = Num 0"
  by (simp add: round64_def round_half_even_def Let_def)

text \<open>A number of the double grid within the normal range is its own rounding.\<close>

lemma round64_exact:
  assumes "2 powi e \<le> \<bar>x\<bar>" "\<bar>x\<bar> < 2 powi (e + 1)" "- 1022 \<le> e" "e \<le> 1023"
    and "x / 2 powi (e - 52) = of_int k"
  shows "round64 x = Num x"
proof -
  have b: "binade 2045 \<bar>x\<bar> = e" using binade_eq [OF assms(1-4)] .
  have q: "(2::real) powi (e - 52) \<noteq> 0" by simp
  have y: "of_int k * 2 powi (e - 52) = x"
    using assms(5) q by (simp add: field_simps)
  have "(2::real) powi (e + 1) \<le> 2 powi 1024"
    using assms(4) by (intro power_int_increasing) simp_all
  then have "\<bar>x\<bar> < 2 ^ 1024" using assms(2) by simp
  then show ?thesis
    unfolding round64_def Let_def b assms(5) round_half_even_int y by simp
qed

lemma round64_small_integers:
  "round64 (- 24) = Num (- 24)"
  "round64 (- 2) = Num (- 2)"
  "round64 (- 1) = Num (- 1)"
  "round64 1 = Num 1"
  "round64 6 = Num 6"
  "round64 100 = Num 100"
  "round64 (- 2000) = Num (- 2000)"
  "round64 2000 = Num 2000"
proof -
  show "round64 (- 24) = Num (- 24)"
    by (rule round64_exact [where e = 4 and k = "- 24 * 2 ^ 48"])
      (simp_all add: power_int_def power_one_over)
  show "round64 (- 2) = Num (- 2)"
    by (rule round64_exact [where e = 1 and k = "- 2 * 2 ^ 51"])
      (simp_all add: power_int_def power_one_over)
  show "round64 (- 1) = Num (- 1)"
    by (rule round64_exact [where e = 0 and k = "- (2 ^ 52)"])
      (simp_all add: power_int_def power_one_over)
  show "round64 1 = Num 1"
    by (rule round64_exact [where e = 0 and k = "2 ^ 52"])
      (simp_all add: power_int_def power_one_over)
  show "round64 6 = Num 6"
    by (rule round64_exact [where e = 2 and k = "6 * 2 ^ 50"])
      (simp_all add: power_int_def power_one_over)
  show "round64 100 = Num 100"
    by (rule round64_exact [where e = 6 and k = "100 * 2 ^ 46"])
      (simp_all add: power_int_def power_one_over)
  show "round64 (- 2000) = Num (- 2000)"
    by (rule round64_exact [where e = 10 and k = "- 2000 * 2 ^ 42"])
      (simp_all add: power_int_def power_one_over)
  show "round64 2000 = Num 2000"
    by (rule round64_exact [where e = 10 and k = "2000 * 2 ^ 42"])
      (simp_all add: power_int_def power_one_over)
qed

text \<open>
  The error of a rounding with a finite result: at most half a unit in the last place of
  the argument, or half the distance between the doubles near zero.
\<close>

lemma round_half_even_error: "\<bar>of_int (round_half_even t) - t\<bar> \<le> 1 / 2"
proof -
  have "of_int \<lfloor>t\<rfloor> \<le> t" "t < of_int \<lfloor>t\<rfloor> + 1" by linarith+
  then show ?thesis
    by (auto simp: round_half_even_def Let_def abs_le_iff)
qed

lemma round_half_even_near:
  assumes "\<bar>t - of_int m\<bar> < 1 / 2"
  shows "round_half_even t = m"
proof (cases "of_int m \<le> t")
  case True
  with assms have "\<lfloor>t\<rfloor> = m" by (intro floor_unique) (auto simp: abs_less_iff)
  with assms True show ?thesis
    by (auto simp: round_half_even_def Let_def abs_less_iff)
next
  case False
  with assms have "\<lfloor>t\<rfloor> = m - 1" by (intro floor_unique) (auto simp: abs_less_iff)
  with assms False show ?thesis
    by (auto simp: round_half_even_def Let_def abs_less_iff)
qed

lemma round64_error:
  assumes "round64 x = Num y"
  shows "\<bar>y - x\<bar> \<le> 2 powi (- 53) * \<bar>x\<bar> + 2 powi (- 1075)"
proof -
  define e where "e = binade 2045 \<bar>x\<bar>"
  define q :: real where "q = 2 powi (e - 52)"
  have q: "0 < q" by (simp add: q_def)
  from assms have y: "y = of_int (round_half_even (x / q)) * q"
    by (simp add: round64_def Let_def e_def q_def split: if_splits)
  have "y - x = (of_int (round_half_even (x / q)) - x / q) * q"
    using q by (simp add: y algebra_simps)
  then have "\<bar>y - x\<bar> = \<bar>of_int (round_half_even (x / q)) - x / q\<bar> * q"
    using q by (simp add: abs_mult)
  also have "\<dots> \<le> 1 / 2 * q"
    using round_half_even_error [of "x / q"] q by (intro mult_right_mono) simp_all
  also have "1 / 2 * q = 2 powi (e - 53)"
    by (simp add: q_def power_int_diff)
  finally have b: "\<bar>y - x\<bar> \<le> 2 powi (e - 53)" .
  from binade_bounds [of 2045 "\<bar>x\<bar>"] have
    l: "- 1022 \<le> e" and n: "- 1022 < e \<longrightarrow> 2 powi e \<le> \<bar>x\<bar>"
    by (simp_all add: e_def)
  show ?thesis
  proof (cases "- 1022 < e")
    case True
    with n have "2 powi e \<le> \<bar>x\<bar>" by simp
    then have "(2::real) powi (e - 53) \<le> 2 powi (- 53) * \<bar>x\<bar>"
      by (simp add: power_int_diff power_int_minus field_simps)
    with b show ?thesis by (smt (verit) zero_less_power_int)
  next
    case False
    with l have "e = - 1022" by simp
    with b have "\<bar>y - x\<bar> \<le> 2 powi (- 1075)" by simp
    moreover have "0 \<le> 2 powi (- 53) * \<bar>x\<bar>" by simp
    ultimately show ?thesis by linarith
  qed
qed

text \<open>A number closer to a point of the double grid than to any other rounds to it.\<close>

lemma round64_nearest:
  assumes "2 powi e \<le> \<bar>x\<bar>" "\<bar>x\<bar> < 2 powi (e + 1)" "- 1022 \<le> e" "e \<le> 1022"
    and "\<bar>x / 2 powi (e - 52) - of_int k\<bar> < 1 / 2"
  shows "round64 x = Num (of_int k * 2 powi (e - 52))"
proof -
  have b: "binade 2045 \<bar>x\<bar> = e" using binade_eq [OF assms(1,2,3)] assms(4) by simp
  have r: "round_half_even (x / 2 powi (e - 52)) = k"
    using assms(5) by (rule round_half_even_near)
  have q: "(0::real) < 2 powi (e - 52)" by simp
  have "\<bar>of_int k\<bar> < \<bar>x / 2 powi (e - 52)\<bar> + 1 / 2" using assms(5) by linarith
  then have "\<bar>of_int k\<bar> * 2 powi (e - 52) < (\<bar>x / 2 powi (e - 52)\<bar> + 1 / 2) * 2 powi (e - 52)"
    using q by (simp only: mult_less_cancel_right_pos)
  also have "\<dots> = \<bar>x\<bar> + 2 powi (e - 53)"
    by (simp add: algebra_simps power_int_diff)
  also have "\<dots> < 2 powi (e + 1) + 2 powi (e - 53)" using assms(2) by simp
  also have "\<dots> \<le> 2 powi 1023 + 2 powi 1023"
    using assms(4) by (intro add_mono power_int_increasing) simp_all
  also have "\<dots> = 2 ^ 1024" by simp
  finally have "\<bar>of_int k * 2 powi (e - 52)\<bar> < (2::real) ^ 1024"
    by (simp add: abs_mult)
  then show ?thesis
    unfolding round64_def Let_def b r by simp
qed

subsection \<open>Level payment\<close>

text \<open>
  The payment of a loan of 1000 at an annual rate of -2400 over \<open>n\<close> months, for the
  even \<open>n\<close> 2 and 6: the monthly rate is -2, the rate factor is \<open>(-1)\<^sup>n = 1\<close>, the
  divisor \<open>rateFactor - 1\<close> is 0 and the payment is \<open>-Infinity\<close>.
\<close>

lemma runaway_rate: "fl_div (fl_div (Num (- 2400)) (Num 100)) (Num 12) = Num (- 2)"
  by (simp add: round64_small_integers)

lemma runaway_factor:
  "Math_pow (Num (- 1)) (Num 2) = Num 1"
  "Math_pow (Num (- 1)) (Num 6) = Num 1"
  by (simp_all add: Math_pow_def round64_small_integers)

lemma runaway_payment:
  "calculateMonthlyPayment (Num 1000) (Num (- 2400)) (Num 2) =
     \<lparr>monthlyPayment = NegInf, totalPayments = NegInf, totalInterest = NegInf,
      monthlyRate = Some (Num (- 2))\<rparr>"
  "calculateMonthlyPayment (Num 1000) (Num (- 2400)) (Num 6) =
     \<lparr>monthlyPayment = NegInf, totalPayments = NegInf, totalInterest = NegInf,
      monthlyRate = Some (Num (- 2))\<rparr>"
  by (simp_all add: calculateMonthlyPayment_def Let_def runaway_factor
        fl_sub_def round64_small_integers)

text \<open>
  The payment of a loan of 1000 over 12 months at the annual rate \<open>75 / 2 ^ 56\<close>, about
  \<open>1.04e-15\<close>: the monthly rate is \<open>1 / 2 ^ 60\<close>, which is not zero, \<open>1 + monthlyRate\<close>
  rounds to 1, the rate factor is 1, the divisor is 0 and the payment is \<open>Infinity\<close>.
\<close>

lemma round64_tiny_rate:
  "round64 (3 / 2 ^ 58) = Num (3 / 2 ^ 58)"
  "round64 (1 / 2 ^ 60) = Num (1 / 2 ^ 60)"
  "round64 (125 / 2 ^ 57) = Num (125 / 2 ^ 57)"
proof -
  show "round64 (3 / 2 ^ 58) = Num (3 / 2 ^ 58)"
    by (rule round64_exact [where e = "- 57" and k = "3 * 2 ^ 51"])
      (simp_all add: power_int_def power_one_over field_simps)
  show "round64 (1 / 2 ^ 60) = Num (1 / 2 ^ 60)"
    by (rule round64_exact [where e = "- 60" and k = "2 ^ 52"])
      (simp_all add: power_int_def power_one_over field_simps)
  show "round64 (125 / 2 ^ 57) = Num (125 / 2 ^ 57)"
    by (rule round64_exact [where e = "- 51" and k = "125 * 2 ^ 46"])
      (simp_all add: power_int_def power_one_over field_simps)
qed

lemma round64_one_plus_tiny: "round64 (1 + 1 / 2 ^ 60) = Num 1"
  using round64_nearest [where x = "1 + 1 / 2 ^ 60" and e = 0 and k = "2 ^ 52"]
  by (simp add: power_int_def power_one_over field_simps)

lemma tiny_rate:
  "fl_div (fl_div (Num (75 / 2 ^ 56)) (Num 100)) (Num 12) = Num (1 / 2 ^ 60)"
proof -
  have "fl_div (Num (75 / 2 ^ 56)) (Num 100) = round64 (3 / 2 ^ 58)" by simp
  then have "fl_div (fl_div (Num (75 / 2 ^ 56)) (Num 100)) (Num 12)
      = fl_div (Num (3 / 2 ^ 58)) (Num 12)"
    by (simp only: round64_tiny_rate)
  also have "\<dots> = round64 (1 / 2 ^ 60)" by simp
  finally show ?thesis by (simp only: round64_tiny_rate)
qed

lemma tiny_factor: "Math_pow (fl_add (Num 1) (Num (1 / 2 ^ 60))) (Num 12) = Num 1"
proof -
  have "fl_add (Num 1) (Num (1 / 2 ^ 60)) = Num 1"
    by (simp only: fl_add.simps round64_one_plus_tiny)
  then show ?thesis by (simp add: Math_pow_def round64_small_integers)
qed

lemma tiny_payment:
  "monthlyPayment (calculateMonthlyPayment (Num 1000) (Num (75 / 2 ^ 56)) (Num 12)) = PosInf"
proof -
  have n: "fl_mul (Num 1000) (fl_mul (Num (1 / 2 ^ 60)) (Num 1)) = Num (125 / 2 ^ 57)"
  proof -
    have "fl_mul (Num (1 / 2 ^ 60)) (Num 1) = round64 (1 / 2 ^ 60)" by simp
    then have "fl_mul (Num 1000) (fl_mul (Num (1 / 2 ^ 60)) (Num 1))
        = fl_mul (Num 1000) (Num (1 / 2 ^ 60))"
      by (simp only: round64_tiny_rate)
    also have "\<dots> = round64 (125 / 2 ^ 57)" by simp
    finally show ?thesis by (simp only: round64_tiny_rate)
  qed
  have d: "fl_sub (Num 1) (Num 1) = Num 0" by (simp add: fl_sub_def)
  have z: "Num (1 / 2 ^ 60) \<noteq> Num 0" by simp
  show ?thesis
    unfolding calculateMonthlyPayment_def Let_def tiny_rate tiny_factor n d
    using z by simp
qed

text \<open>
  C6 as stated fails on the branch of the payment formula, which has no guard for its
  divisor \<open>rateFactor - 1\<close>: with an annual rate of -2400 and a term of 2 months the
  monthly rate is -2, the rate factor is \<open>(-1)\<^sup>2 = 1\<close>, the divisor is 0 and the
  payment is -2000 divided by 0. A small positive rate does the same: at the annual
  rate \<open>75 / 2 ^ 56\<close> over 12 months the divisor is 0 and the payment is \<open>Infinity\<close>.
\<close>

theorem calculateMonthlyPayment_zero_divisor_counterexample:
  "fl_sub (Math_pow (fl_add (Num 1) (fl_div (fl_div (Num (- 2400)) (Num 100)) (Num 12)))
            (Num 2))
     (Num 1) = Num 0
   \<and> fl_div (Num (- 2000)) (Num 0) = NegInf
   \<and> monthlyPayment (calculateMonthlyPayment (Num 1000) (Num (- 2400)) (Num 2)) = NegInf
   \<and> monthlyPayment (calculateMonthlyPayment (Num 1000) (Num (75 / 2 ^ 56)) (Num 12))
       = PosInf"
proof -
  have "fl_sub (Math_pow (fl_add (Num 1) (fl_div (fl_div (Num (- 2400)) (Num 100)) (Num 12)))
            (Num 2))
     (Num 1) = Num 0"
    by (simp add: runaway_factor fl_sub_def round64_small_integers)
  moreover have "fl_div (Num (- 2000)) (Num 0) = NegInf" by simp
  moreover have
    "monthlyPayment (calculateMonthlyPayment (Num 1000) (Num (- 2400)) (Num 2)) = NegInf"
    by (simp add: runaway_payment)
  ultimately show ?thesis using tiny_payment by (intro conjI)
qed

text \<open>
  C6, amended. \<open>calculateMonthlyPayment\<close> guards its two degenerate cases against a
  division by zero. With a principal \<open>\<le> 0\<close> or a term \<open>\<le> 0\<close> it returns the all-zero
  result. With a principal \<open>> 0\<close>, a term \<open>> 0\<close> and the annual rate 0 it returns the
  monthly payment \<open>principal / termMonths\<close>, a division by a term that is not zero,
  and the total interest 0; for finite numbers the payment is the quotient rounded to
  a double.
\<close>

theorem calculateMonthlyPayment_guards:
  "(js_nonpositive loanAmount \<or> js_nonpositive months \<longrightarrow>
      calculateMonthlyPayment loanAmount annualRate months =
        \<lparr>monthlyPayment = Num 0, totalPayments = Num 0, totalInterest = Num 0,
         monthlyRate = None\<rparr>)
   \<and> (js_positive loanAmount \<and> js_positive months \<longrightarrow>
        months \<noteq> Num 0
        \<and> monthlyPayment (calculateMonthlyPayment loanAmount (Num 0) months)
            = fl_div loanAmount months
        \<and> totalInterest (calculateMonthlyPayment loanAmount (Num 0) months) = Num 0)
   \<and> (P > 0 \<and> n > 0 \<longrightarrow>
        monthlyPayment (calculateMonthlyPayment (Num P) (Num 0) (Num n)) = round64 (P / n))"
proof -
  have a: "js_positive x \<Longrightarrow> \<not> js_nonpositive x \<and> x \<noteq> Num 0" for x
    by (cases x) simp_all
  show ?thesis
    by (auto simp: calculateMonthlyPayment_def dest: a)
qed

theorem calculateMonthlyPayment_guards_witness:
  "calculateMonthlyPayment (Num 1000) (Num 5) (Num 0) =
     \<lparr>monthlyPayment = Num 0, totalPayments = Num 0, totalInterest = Num 0,
      monthlyRate = None\<rparr>
   \<and> calculateMonthlyPayment NegInf (Num 5) (Num 12) =
     \<lparr>monthlyPayment = Num 0, totalPayments = Num 0, totalInterest = Num 0,
      monthlyRate = None\<rparr>
   \<and> monthlyPayment (calculateMonthlyPayment (Num 1200) (Num 0) (Num 12)) = Num 100
   \<and> totalInterest (calculateMonthlyPayment (Num 1200) (Num 0) (Num 12)) = Num 0
   \<and> monthlyPayment (calculateMonthlyPayment (Num 1200) (Num 0) PosInf) = Num 0"
  using calculateMonthlyPayment_guards
          [where loanAmount = "Num 1000" and months = "Num 0" and annualRate = "Num 5"]
        calculateMonthlyPayment_guards
          [where loanAmount = NegInf and months = "Num 12" and annualRate = "Num 5"]
        calculateMonthlyPayment_guards
          [where loanAmount = "Num 1200" and months = "Num 12" and P = 1200 and n = 12]
        calculateMonthlyPayment_guards
          [where loanAmount = "Num 1200" and months = PosInf]
  by (simp add: round64_small_integers)

subsection \<open>Household ratio\<close>

text \<open>
  C5. With monthly costs \<open>\<ge> 0\<close> and a gross monthly income \<open>> 0\<close>,
  \<open>calculateAffordability\<close> gives the status Affordable exactly when the ratio of
  costs to income is \<open>\<le> 0.30\<close>, Caution exactly when it is \<open>> 0.30\<close> and
  \<open>\<le> 0.40\<close>, and High Risk exactly when it is \<open>> 0.40\<close>. With an income \<open>\<le> 0\<close>
  it returns the neutral result (ratio 0, status unknown) from the guard, before the
  division.
\<close>

theorem calculateAffordability_classes:
  "(totalMonthlyCosts \<ge> 0 \<and> grossMonthlyIncome > 0 \<longrightarrow>
      ratio (calculateAffordability totalMonthlyCosts grossMonthlyIncome)
        = totalMonthlyCosts / grossMonthlyIncome
      \<and> (status (calculateAffordability totalMonthlyCosts grossMonthlyIncome) = ''Affordable''
           \<longleftrightarrow> totalMonthlyCosts / grossMonthlyIncome \<le> 0.30)
      \<and> (status (calculateAffordability totalMonthlyCosts grossMonthlyIncome) = ''Caution''
           \<longleftrightarrow> 0.30 < totalMonthlyCosts / grossMonthlyIncome
               \<and> totalMonthlyCosts / grossMonthlyIncome \<le> 0.40)
      \<and> (status (calculateAffordability totalMonthlyCosts grossMonthlyIncome) = ''High Risk''
           \<longleftrightarrow> totalMonthlyCosts / grossMonthlyIncome > 0.40))
   \<and> (grossMonthlyIncome \<le> 0 \<longrightarrow>
      calculateAffordability totalMonthlyCosts grossMonthlyIncome
        = \<lparr>ratio = 0, percent = 0, status = ''unknown'', statusColor = ''gray''\<rparr>)"
  by (auto simp add: calculateAffordability_def Let_def field_simps)

theorem calculateAffordability_classes_witness:
  "status (calculateAffordability 300 1000) = ''Affordable''
   \<and> status (calculateAffordability 400 1000) = ''Caution''
   \<and> status (calculateAffordability 401 1000) = ''High Risk''
   \<and> ratio (calculateAffordability 300 1000) = 0.30
   \<and> calculateAffordability 300 0
        = \<lparr>ratio = 0, percent = 0, status = ''unknown'', statusColor = ''gray''\<rparr>"
  using calculateAffordability_classes [of 300 1000]
        calculateAffordability_classes [of 400 1000]
        calculateAffordability_classes [of 401 1000]
        calculateAffordability_classes [of 300 0]
  by simp

subsection \<open>Welcome tax: closed form\<close>

lemma calculateWelcomeTax_closed:
  assumes "0 \<le> p"
  shows "totalTax (calculateWelcomeTax p) = welcomeTax_closed p"
    and "sum_list (map bd_amount (breakdown (calculateWelcomeTax p))) = p"
  using assms
  by (auto simp add: calculateWelcomeTax_def QUEBEC_WELCOME_TAX_BRACKETS_def
        welcomeTax_bracket_def welcomeTax_closed_def Let_def min_def max_def)

lemma welcomeTax_closed_mono: "p1 \<le> p2 \<Longrightarrow> welcomeTax_closed p1 \<le> welcomeTax_closed p2"
  unfolding welcomeTax_closed_def
  by (intro add_mono mult_left_mono) (auto simp: min_def max_def)

lemma welcomeTax_closed_cont: "continuous_on A welcomeTax_closed"
  unfolding welcomeTax_closed_def
  by (intro continuous_intros)

subsection \<open>Welcome tax\<close>

text \<open>
  C4. For every purchase price \<open>\<ge> 0\<close> the amounts of the breakdown entries of
  \<open>calculateWelcomeTax\<close> add up to the price; the total tax is non-decreasing in the
  price (for \<open>0 \<le> p1 \<le> p2\<close> the tax at \<open>p1\<close> is at most the tax at \<open>p2\<close>) and
  continuous on the prices \<open>\<ge> 0\<close>.
\<close>

theorem calculateWelcomeTax_sum_mono_continuous:
  "(0 \<le> price \<longrightarrow>
      sum_list (map bd_amount (breakdown (calculateWelcomeTax price))) = price)
   \<and> (0 \<le> p1 \<and> p1 \<le> p2 \<longrightarrow>
      totalTax (calculateWelcomeTax p1) \<le> totalTax (calculateWelcomeTax p2))
   \<and> continuous_on {0..} (\<lambda>p. totalTax (calculateWelcomeTax p))"
proof (intro conjI impI)
  assume "0 \<le> price"
  then show "sum_list (map bd_amount (breakdown (calculateWelcomeTax price))) = price"
    by (rule calculateWelcomeTax_closed(2))
next
  assume "0 \<le> p1 \<and> p1 \<le> p2"
  then show "totalTax (calculateWelcomeTax p1) \<le> totalTax (calculateWelcomeTax p2)"
    by (simp add: calculateWelcomeTax_closed(1) welcomeTax_closed_mono)
next
  have "continuous_on {0..} (\<lambda>p. totalTax (calculateWelcomeTax p))
          \<longleftrightarrow> continuous_on {0..} welcomeTax_closed"
    by (rule continuous_on_cong) (simp_all add: calculateWelcomeTax_closed(1))
  then show "continuous_on {0..} (\<lambda>p. totalTax (calculateWelcomeTax p))"
    by (simp add: welcomeTax_closed_cont)
qed

theorem calculateWelcomeTax_sum_mono_continuous_witness:
  "sum_list (map bd_amount (breakdown (calculateWelcomeTax 300000))) = 300000
   \<and> totalTax (calculateWelcomeTax 300000) \<le> totalTax (calculateWelcomeTax 600000)
   \<and> totalTax (calculateWelcomeTax 300000) = 2843
   \<and> totalTax (calculateWelcomeTax 600000) = 7843"
  using calculateWelcomeTax_sum_mono_continuous
          [where price = 300000 and ?p1.0 = 300000 and ?p2.0 = 600000]
  by (simp add: calculateWelcomeTax_def QUEBEC_WELCOME_TAX_BRACKETS_def
        welcomeTax_bracket_def Let_def)

subsection \<open>Financing sources: the two passes\<close>

lemma FINANCING_TYPES_flags:
  "FINANCING_TYPES t = Some tc \<Longrightarrow>
     (typeIsAutoCalculated tc \<longleftrightarrow> t = ''parents_loan'')
     \<and> (t = ''rrsp'' \<longrightarrow> countsTowardDownPayment tc \<and> \<not> isLoan tc)
     \<and> (t = ''celiapp'' \<longrightarrow> countsTowardDownPayment tc)
     \<and> (t = ''mortgage'' \<longrightarrow> \<not> countsTowardDownPayment tc)"
  by (auto simp: FINANCING_TYPES_def mortgage_type_def celiapp_type_def rrsp_type_def
        tfsa_type_def joint_account_type_def parents_loan_type_def other_loan_type_def
        other_savings_type_def split: if_splits)

lemma FINANCING_TYPES_rrsp: "FINANCING_TYPES ''rrsp'' = Some rrsp_type"
  and FINANCING_TYPES_celiapp: "FINANCING_TYPES ''celiapp'' = Some celiapp_type"
  by (simp_all add: FINANCING_TYPES_def)

lemma positiveSavings_simps:
  "positiveSavings [] = 0"
  "positiveSavings (None # slots) = positiveSavings slots"
  "positiveSavings (Some s # slots) = savingOf s + positiveSavings slots"
  by (simp_all add: positiveSavings_def presentSlots_def savingOf_def)

text \<open>
  What the first pass adds for a source is the amount that the sum of the statement
  has for it: a source of the auto-calculated type leaves the pass with the amount 0,
  and the type of the auto-fill mortgage slot does not count.
\<close>

lemma firstPass_source_result:
  assumes "firstPass_source pg i s (t, w) = (s', t', w')"
  shows "t' = t + savingOf s'"
    and "w' = w @ ceilingWarnings (Some s')"
    and "firstPass_silent_source pg i s t = (s', t')"
  using assms
  by (auto simp: firstPass_source_def firstPass_silent_source_def Let_def savingOf_def
        countsForDownPayment_def ceilingWarnings_def exceeds_def resolveAmount_def
        isGapSlot_def isAutoFillMortgageSlot_def
        rrsp_type_def celiapp_type_def FINANCING_TYPES_rrsp FINANCING_TYPES_celiapp
        dest: FINANCING_TYPES_flags split: option.splits if_splits)

lemma firstPass_loop_result:
  "firstPass_loop pg i slots (t, w) = (slots', t', w') \<Longrightarrow>
     t' = t + positiveSavings slots'
     \<and> w' = w @ concat (map ceilingWarnings slots')
     \<and> firstPass_silent_loop pg i slots t = (slots', t')
     \<and> length slots' = length slots"
proof (induction slots arbitrary: i t w slots' t' w')
  case Nil
  then show ?case by (simp add: positiveSavings_simps)
next
  case (Cons slot slots)
  show ?case
  proof (cases slot)
    case None
    with Cons.prems obtain r where
      r: "firstPass_loop pg (Suc i) slots (t, w) = (r, t', w')" and s: "slots' = None # r"
      by (auto split: prod.splits)
    from Cons.IH [OF r] s show ?thesis
      using None by (simp add: positiveSavings_simps ceilingWarnings_def)
  next
    case (Some src)
    with Cons.prems obtain s1 t1 w1 r where
      a: "firstPass_source pg i src (t, w) = (s1, t1, w1)" and
      r: "firstPass_loop pg (Suc i) slots (t1, w1) = (r, t', w')" and
      s: "slots' = Some s1 # r"
      by (auto split: prod.splits)
    from firstPass_source_result [OF a] Cons.IH [OF r] s show ?thesis
      using Some by (simp add: positiveSavings_simps)
  qed
qed





lemma calculate_financing_numeric:
  "numericOutputs (calculate_financing pg price dp is30 slots)
     = calculate_financing_silent pg price dp is30 slots"
proof -
  let ?s0 = "updateBankMortgageAmount pg (totalMortgage (calculateCmhc price dp is30)) slots"
  obtain s1 t ws where f: "firstPass_loop pg 0 ?s0 (0, []) = (s1, t, ws)"
    by (cases "firstPass_loop pg 0 ?s0 (0, [])") auto
  from firstPass_loop_result [OF f] have g: "firstPass_silent_loop pg 0 ?s0 0 = (s1, t)"
    by simp
  show ?thesis
    by (simp add: calculate_financing_def calculate_financing_silent_def firstPass_def
          Let_def f g numericOutputs_def split: prod.splits)
qed

lemma rrspAmounts_simps:
  "rrspAmounts [] = []"
  "rrspAmounts (None # slots) = rrspAmounts slots"
  "rrspAmounts (Some s # slots) =
     (if sourceType s = ''rrsp'' \<and> amount s > 0 then amount s # rrspAmounts slots
      else rrspAmounts slots)"
  by (simp_all add: rrspAmounts_def presentSlots_def)

text \<open>
  The second pass changes \<open>rrspMonthlyRepayment\<close> at an RRSP source with a positive
  amount and nowhere else, whatever the payment of a loan is.
\<close>

lemma secondPass_source_rrsp:
  "rrspMonthlyRepayment (snd (secondPass_source pg i s acc)) =
     (if sourceType s = ''rrsp'' \<and> amount s > 0 then (amount s / 15) / 12
      else rrspMonthlyRepayment acc)"
  by (auto simp: secondPass_source_def Let_def FINANCING_TYPES_rrsp
        dest: FINANCING_TYPES_flags split: option.splits if_splits)

lemma secondPass_loop_rrsp:
  "rrspMonthlyRepayment (snd (secondPass_loop pg i slots acc)) =
     (if rrspAmounts slots = [] then rrspMonthlyRepayment acc
      else (last (rrspAmounts slots) / 15) / 12)"
proof (induction slots arbitrary: i acc)
  case Nil
  then show ?case by (simp add: rrspAmounts_simps)
next
  case (Cons slot slots)
  show ?case
  proof (cases slot)
    case None
    obtain r acc' where c: "secondPass_loop pg (Suc i) slots acc = (r, acc')"
      by (cases "secondPass_loop pg (Suc i) slots acc") auto
    from Cons.IH [of "Suc i" acc] show ?thesis
      using None c by (simp add: rrspAmounts_simps)
  next
    case (Some s)
    obtain s1 acc1 where a: "secondPass_source pg i s acc = (s1, acc1)"
      by (cases "secondPass_source pg i s acc") auto
    obtain r acc' where c: "secondPass_loop pg (Suc i) slots acc1 = (r, acc')"
      by (cases "secondPass_loop pg (Suc i) slots acc1") auto
    from secondPass_source_rrsp [of pg i s acc] a have
      b: "rrspMonthlyRepayment acc1 =
            (if sourceType s = ''rrsp'' \<and> amount s > 0 then (amount s / 15) / 12
             else rrspMonthlyRepayment acc)"
      by simp
    from Cons.IH [of "Suc i" acc1] show ?thesis
      using Some a b c by (simp add: rrspAmounts_simps)
  qed
qed

lemma rrspAmounts_positive: "x \<in> set (rrspAmounts slots) \<Longrightarrow> 0 < x"
  by (auto simp: rrspAmounts_def)

lemma last_le_sum_list:
  fixes xs :: "real list"
  shows "(\<And>x. x \<in> set xs \<Longrightarrow> 0 < x) \<Longrightarrow> xs \<noteq> [] \<Longrightarrow> last xs \<le> sum_list xs"
proof (induction xs)
  case Nil
  then show ?case by simp
next
  case (Cons x xs)
  show ?case
  proof (cases "xs = []")
    case True
    then show ?thesis by simp
  next
    case False
    have "0 < x" using Cons.prems(1) by simp
    moreover have "last xs \<le> sum_list xs"
      using Cons.IH Cons.prems(1) False by simp
    ultimately show ?thesis using False by simp
  qed
qed

lemma last_less_sum_list:
  fixes xs :: "real list"
  assumes "\<And>x. x \<in> set xs \<Longrightarrow> 0 < x" and "2 \<le> length xs"
  shows "last xs < sum_list xs"
proof (cases xs)
  case Nil
  with assms(2) show ?thesis by simp
next
  case (Cons x ys)
  with assms(2) have ne: "ys \<noteq> []" by auto
  have "0 < x" using assms(1) Cons by simp
  moreover have "last ys \<le> sum_list ys"
    using last_le_sum_list [of ys] assms(1) Cons ne by simp
  ultimately show ?thesis using Cons ne by simp
qed

lemmas type_defs = FINANCING_TYPES_def mortgage_type_def celiapp_type_def rrsp_type_def
        tfsa_type_def joint_account_type_def parents_loan_type_def other_loan_type_def
        other_savings_type_def






lemma ceiling_firstPass:
  "firstPass ceiling_page ceiling_sources =
     ([Some ((newSource ''RRSP'' ''rrsp'' False False)\<lparr>amount := 70000\<rparr>),
       Some ((newSource ''CELIAPP'' ''celiapp'' False False)\<lparr>amount := 30000\<rparr>)],
      100000, [rrspWarning])"
  by (simp add: firstPass_def ceiling_page_def ceiling_sources_def newSource_def
        firstPass_source_def resolveSourceType_def resolveAmount_def getInputValue_def
        exceeds_def type_defs Let_def)

lemma runaway_firstPass:
  "firstPass runaway_page runaway_sources = (runaway_first_pass, 106000, [rrspWarning])"
  by (simp add: firstPass_def runaway_page_def runaway_sources_def newSource_def
        runaway_first_pass_def
        firstPass_source_def resolveSourceType_def resolveAmount_def getInputValue_def
        exceeds_def type_defs Let_def)

lemma runaway_breakdown:
  "calculatePaymentBreakdown (Num 1000) (Num (- 2400)) NegInf None =
     \<lparr>interestPortion = Num (- 2000), principalPortion = NegInf\<rparr>"
  by (simp add: calculatePaymentBreakdown_def Let_def runaway_rate fl_sub_def
        round64_small_integers)

lemma runaway_secondPass:
  "secondPass runaway_page runaway_first_pass = (runaway_second_pass, runaway_totals)"
  by (simp add: secondPass_def runaway_page_def runaway_first_pass_def newSource_def
        runaway_second_pass_def runaway_totals_def
        secondPass_source_def getInputValue_def type_defs Let_def
        round64_small_integers runaway_payment runaway_breakdown)

lemma runaway_financing:
  "calculate_financing runaway_page 500000 100000 False runaway_sources =
     \<lparr>financingSources_out = runaway_second_pass,
      totalSavingsForDownPayment_out = 106000,
      downPaymentGap = 0,
      warnings_out = [rrspWarning],
      loans_out = runaway_totals\<rparr>"
proof -
  have u: "updateBankMortgageAmount runaway_page t runaway_sources = runaway_sources" for t
    by (simp add: updateBankMortgageAmount_def runaway_sources_def isAutoFillSlot_def
          newSource_def)
  have p: "updateParentsLoanAmount runaway_page g runaway_first_pass = runaway_first_pass"
    for g
    by (simp add: updateParentsLoanAmount_def runaway_first_pass_def isGapSlot_def
          newSource_def)
  show ?thesis
    by (simp add: calculate_financing_def Let_def u runaway_firstPass p runaway_secondPass)
qed

text \<open>
  C9. The warnings of the first pass are, source by source in the order of the list,
  the ones the ceilings call for: a present source has a warning if and only if it is
  an RRSP source with an amount \<open>> 60000\<close> or a CELIAPP source with an amount
  \<open>> 40000\<close>. The warnings change no number: the sources with their amounts and
  payments, the savings toward the down payment, the gap and the loan totals are the
  ones of the calculation that has no ceiling check at all, also where a payment is
  not finite.
\<close>

theorem ceiling_warnings_informational:
  "(firstPass pg slots = (sources1, savings, ws) \<longrightarrow>
      ws = concat (map ceilingWarnings sources1))
   \<and> ceilingWarnings None = []
   \<and> (ceilingWarnings (Some s) \<noteq> [] \<longleftrightarrow>
        (sourceType s = ''rrsp'' \<and> amount s > 60000)
        \<or> (sourceType s = ''celiapp'' \<and> amount s > 40000))
   \<and> numericOutputs (calculate_financing pg price dp is30 slots)
        = calculate_financing_silent pg price dp is30 slots"
proof (intro conjI impI)
  assume "firstPass pg slots = (sources1, savings, ws)"
  then show "ws = concat (map ceilingWarnings sources1)"
    using firstPass_loop_result [of pg 0 slots 0 "[]" sources1 savings ws]
    by (simp add: firstPass_def)
next
  show "ceilingWarnings None = []"
    by (simp add: ceilingWarnings_def)
next
  show "ceilingWarnings (Some s) \<noteq> [] \<longleftrightarrow>
        (sourceType s = ''rrsp'' \<and> amount s > 60000)
        \<or> (sourceType s = ''celiapp'' \<and> amount s > 40000)"
    by (simp add: ceilingWarnings_def)
next
  show "numericOutputs (calculate_financing pg price dp is30 slots)
        = calculate_financing_silent pg price dp is30 slots"
    by (rule calculate_financing_numeric)
qed

theorem ceiling_warnings_informational_witness:
  "firstPass ceiling_page ceiling_sources =
     ([Some ((newSource ''RRSP'' ''rrsp'' False False)\<lparr>amount := 70000\<rparr>),
       Some ((newSource ''CELIAPP'' ''celiapp'' False False)\<lparr>amount := 30000\<rparr>)],
      100000, [rrspWarning])
   \<and> [rrspWarning] = concat (map ceilingWarnings
       [Some ((newSource ''RRSP'' ''rrsp'' False False)\<lparr>amount := 70000\<rparr>),
        Some ((newSource ''CELIAPP'' ''celiapp'' False False)\<lparr>amount := 30000\<rparr>)])
   \<and> ceilingWarnings (Some ((newSource ''RRSP'' ''rrsp'' False False)\<lparr>amount := 70000\<rparr>))
       \<noteq> []
   \<and> ceilingWarnings (Some ((newSource ''CELIAPP'' ''celiapp'' False False)\<lparr>amount := 30000\<rparr>))
       = []
   \<and> warnings_out (calculate_financing runaway_page 500000 100000 False runaway_sources)
       = [rrspWarning]
   \<and> calculate_financing_silent runaway_page 500000 100000 False runaway_sources
       = (runaway_second_pass, 106000, 0, runaway_totals)"
  using ceiling_warnings_informational
          [where pg = ceiling_page and slots = ceiling_sources
             and ?sources1.0 = "[Some ((newSource ''RRSP'' ''rrsp'' False False)\<lparr>amount := 70000\<rparr>),
       Some ((newSource ''CELIAPP'' ''celiapp'' False False)\<lparr>amount := 30000\<rparr>)]"
             and savings = 100000 and ws = "[rrspWarning]"
             and s = "(newSource ''RRSP'' ''rrsp'' False False)\<lparr>amount := 70000\<rparr>"]
        ceiling_warnings_informational
          [where s = "(newSource ''CELIAPP'' ''celiapp'' False False)\<lparr>amount := 30000\<rparr>"
             and pg = runaway_page and price = 500000 and dp = 100000 and ?is30.0 = False
             and slots = runaway_sources]
        ceiling_firstPass runaway_financing
  by (simp add: newSource_def numericOutputs_def)

text \<open>
  C10. The second pass assigns the monthly RRSP repayment, it does not add it up: when
  the list has RRSP sources with positive amounts, \<open>rrspMonthlyRepayment\<close> is the amount
  of the last of them divided by 15 and by 12, and with two or more of them this is not
  the sum of their obligations. This holds for every list and page, whatever the
  payments of the loans in the list are.
\<close>

theorem rrsp_repayment_assigned:
  "(rrspAmounts slots \<noteq> [] \<longrightarrow>
      rrspMonthlyRepayment (snd (secondPass pg slots))
        = (last (rrspAmounts slots) / 15) / 12)
   \<and> (2 \<le> length (rrspAmounts slots) \<longrightarrow>
      rrspMonthlyRepayment (snd (secondPass pg slots))
        \<noteq> (sum_list (rrspAmounts slots) / 15) / 12)"
proof (intro impI conjI)
  have r: "rrspMonthlyRepayment (snd (secondPass pg slots)) =
      (if rrspAmounts slots = [] then 0 else (last (rrspAmounts slots) / 15) / 12)"
    using secondPass_loop_rrsp [of pg 0 slots]
    by (simp add: secondPass_def)
  { assume "rrspAmounts slots \<noteq> []"
    with r show "rrspMonthlyRepayment (snd (secondPass pg slots))
        = (last (rrspAmounts slots) / 15) / 12"
      by simp }
  { assume l: "2 \<le> length (rrspAmounts slots)"
    then have ne: "rrspAmounts slots \<noteq> []" by auto
    have "last (rrspAmounts slots) < sum_list (rrspAmounts slots)"
      using last_less_sum_list [of "rrspAmounts slots"] rrspAmounts_positive l by blast
    with r ne show "rrspMonthlyRepayment (snd (secondPass pg slots))
        \<noteq> (sum_list (rrspAmounts slots) / 15) / 12"
      by simp }
qed

theorem rrsp_repayment_assigned_witness:
  "rrspAmounts runaway_first_pass = [70000, 36000]
   \<and> src_monthlyPayment (the (fst (secondPass runaway_page runaway_first_pass) ! 0))
       = Some NegInf
   \<and> rrspMonthlyRepayment (snd (secondPass runaway_page runaway_first_pass)) = 200
   \<and> (200::real) = (last [70000, 36000] / 15) / 12
   \<and> (200::real) \<noteq> (sum_list [70000, 36000] / 15) / 12"
proof -
  have a: "rrspAmounts runaway_first_pass = [70000, 36000]"
    by (simp add: rrspAmounts_def presentSlots_def runaway_first_pass_def newSource_def)
  have b: "src_monthlyPayment (the (fst (secondPass runaway_page runaway_first_pass) ! 0))
       = Some NegInf"
    by (simp add: runaway_secondPass runaway_second_pass_def)
  show ?thesis
    using rrsp_repayment_assigned [where pg = runaway_page and slots = runaway_first_pass]
          a b
    by simp
qed

subsection \<open>Per-person housing costs\<close>

lemma halfUlp_pos: "0 < halfUlp" and halfTiny_pos: "0 < halfTiny"
  by (simp_all add: halfUlp_def halfTiny_def)

lemma round64_halfUlp:
  "round64 x = Num y \<Longrightarrow> \<bar>y - x\<bar> \<le> halfUlp * \<bar>x\<bar> + halfTiny"
  using round64_error [of x y] by (simp add: halfUlp_def halfTiny_def)

lemma fl_add_Num:
  "fl_add a b = Num y \<Longrightarrow> \<exists>a' b'. a = Num a' \<and> b = Num b' \<and> round64 (a' + b') = Num y"
  by (cases a; cases b) auto

lemma fl_mul_Num:
  "fl_mul a b = Num y \<Longrightarrow> \<exists>a' b'. a = Num a' \<and> b = Num b' \<and> round64 (a' * b') = Num y"
  by (cases a; cases b) (auto split: if_splits)

lemma isFinite_Num: "isFinite x \<longleftrightarrow> (\<exists>a. x = Num a)"
  by (cases x) simp_all

lemma foldl_fl_add_infinite:
  "\<not> isFinite T \<Longrightarrow> \<not> isFinite (foldl (\<lambda>acc x. fl_add acc (Num x)) T xs)"
proof (induction xs arbitrary: T)
  case Nil
  then show ?case by simp
next
  case (Cons x xs)
  from Cons.prems have "\<not> isFinite (fl_add T (Num x))" by (cases T) simp_all
  from Cons.IH [OF this] show ?case by simp
qed

lemma income_sum_error:
  "foldl (\<lambda>acc x. fl_add acc (Num x)) (Num t0) xs = Num t \<Longrightarrow>
     \<bar>t - (t0 + sum_list xs)\<bar>
       \<le> ((1 + halfUlp) ^ length xs - 1) * (\<bar>t0\<bar> + sum_list (map abs xs))
         + real (length xs) * (1 + halfUlp) ^ length xs * halfTiny"
proof (induction xs arbitrary: t0)
  case Nil
  then show ?case by simp
next
  case (Cons x xs)
  define u where "u = halfUlp"
  define h where "h = halfTiny"
  define p where "p = (1 + u) ^ length xs"
  define A where "A = sum_list (map abs xs)"
  define m where "m = real (length xs)"
  define w where "w = \<bar>t0\<bar> + \<bar>x\<bar>"
  have u: "0 < u" and h: "0 < h" using halfUlp_pos halfTiny_pos by (simp_all add: u_def h_def)
  have p: "1 \<le> p" using u by (simp add: p_def)
  have A: "0 \<le> A" unfolding A_def by (rule sum_list_nonneg) auto
  have m: "0 \<le> m" by (simp add: m_def)
  have w: "\<bar>t0 + x\<bar> \<le> w" by (simp add: w_def)
  from Cons.prems have f: "foldl (\<lambda>acc x. fl_add acc (Num x)) (round64 (t0 + x)) xs = Num t"
    by simp
  have "isFinite (round64 (t0 + x))"
    using foldl_fl_add_infinite [of "round64 (t0 + x)" xs] f by auto
  then obtain t1 where t1: "round64 (t0 + x) = Num t1" by (auto simp: isFinite_Num)
  from round64_halfUlp [OF t1] have e1: "\<bar>t1 - (t0 + x)\<bar> \<le> u * \<bar>t0 + x\<bar> + h"
    by (simp add: u_def h_def)
  have "u * \<bar>t0 + x\<bar> \<le> u * w" using u w by (intro mult_left_mono) simp_all
  with e1 have e2: "\<bar>t1 - (t0 + x)\<bar> \<le> u * w + h" by linarith
  have a1: "\<bar>t1\<bar> \<le> (1 + u) * w + h"
  proof -
    have "\<bar>t1\<bar> \<le> \<bar>t0 + x\<bar> + (u * w + h)" using e2 by linarith
    also have "\<dots> \<le> w + (u * w + h)" using w by linarith
    finally show ?thesis by (simp add: algebra_simps)
  qed
  from Cons.IH [of t1] f t1 have
    ih: "\<bar>t - (t1 + sum_list xs)\<bar> \<le> (p - 1) * (\<bar>t1\<bar> + A) + m * p * h"
    by (simp add: p_def A_def m_def u_def h_def)
  have "(p - 1) * (\<bar>t1\<bar> + A) \<le> (p - 1) * ((1 + u) * w + h + A)"
    using p a1 by (intro mult_left_mono) simp_all
  with ih have b: "\<bar>t - (t1 + sum_list xs)\<bar> \<le> (p - 1) * ((1 + u) * w + h + A) + m * p * h"
    by linarith
  have "\<bar>t - (t0 + x + sum_list xs)\<bar> \<le> \<bar>t - (t1 + sum_list xs)\<bar> + \<bar>t1 - (t0 + x)\<bar>"
    by linarith
  with b e2 have c: "\<bar>t - (t0 + x + sum_list xs)\<bar>
      \<le> (p - 1) * ((1 + u) * w + h + A) + m * p * h + (u * w + h)"
    by linarith
  have d: "((1 + u) * p - 1) * (w + A) + (m + 1) * ((1 + u) * p) * h
      = (p - 1) * ((1 + u) * w + h + A) + m * p * h + (u * w + h)
        + (p * u * A + (m + 1) * p * u * h)"
    by (simp add: algebra_simps)
  have "0 \<le> p * u * A + (m + 1) * p * u * h"
    using p u A m h by (intro add_nonneg_nonneg mult_nonneg_nonneg) simp_all
  with c d have "\<bar>t - (t0 + x + sum_list xs)\<bar>
      \<le> ((1 + u) * p - 1) * (w + A) + (m + 1) * ((1 + u) * p) * h"
    by linarith
  then show ?case
    by (simp add: p_def A_def m_def u_def h_def w_def algebra_simps)
qed

lemma share_error:
  assumes "fl_mul (Num g) (fl_div (Num x) (Num t)) = Num s" and "0 < t"
  shows "\<bar>s - g * (x / t)\<bar>
           \<le> \<bar>g\<bar> * (\<bar>x\<bar> / t) * (2 * halfUlp + halfUlp\<^sup>2)
             + (\<bar>g\<bar> * (1 + halfUlp) + 1) * halfTiny"
proof -
  define u where "u = halfUlp"
  define h where "h = halfTiny"
  define z where "z = \<bar>x\<bar> / t"
  have u: "0 < u" and h: "0 < h" using halfUlp_pos halfTiny_pos by (simp_all add: u_def h_def)
  have z: "\<bar>x / t\<bar> = z" using assms(2) by (simp add: z_def)
  from assms have "fl_mul (Num g) (round64 (x / t)) = Num s" by simp
  from fl_mul_Num [OF this] obtain r where
    r: "round64 (x / t) = Num r" and s: "round64 (g * r) = Num s"
    by auto
  from round64_halfUlp [OF r] have e1: "\<bar>r - x / t\<bar> \<le> u * z + h"
    unfolding z u_def h_def .
  from round64_halfUlp [OF s] have e2: "\<bar>s - g * r\<bar> \<le> u * (\<bar>g\<bar> * \<bar>r\<bar>) + h"
    by (simp add: abs_mult u_def h_def)
  have r1: "\<bar>r\<bar> \<le> z + (u * z + h)" using e1 z by linarith
  have g1: "\<bar>g\<bar> * \<bar>r\<bar> \<le> \<bar>g\<bar> * (z + (u * z + h))"
    using r1 by (intro mult_left_mono) simp_all
  have "u * (\<bar>g\<bar> * \<bar>r\<bar>) \<le> u * (\<bar>g\<bar> * (z + (u * z + h)))"
    by (rule mult_left_mono [OF g1 less_imp_le [OF u]])
  with e2 have e3: "\<bar>s - g * r\<bar> \<le> u * (\<bar>g\<bar> * (z + (u * z + h))) + h" by linarith
  have "\<bar>g * r - g * (x / t)\<bar> = \<bar>g\<bar> * \<bar>r - x / t\<bar>"
    by (simp add: abs_mult [symmetric] algebra_simps)
  also have "\<dots> \<le> \<bar>g\<bar> * (u * z + h)"
    using e1 by (intro mult_left_mono) simp_all
  finally have e4: "\<bar>g * r - g * (x / t)\<bar> \<le> \<bar>g\<bar> * (u * z + h)" .
  have "\<bar>s - g * (x / t)\<bar> \<le> \<bar>s - g * r\<bar> + \<bar>g * r - g * (x / t)\<bar>" by linarith
  with e3 e4 have "\<bar>s - g * (x / t)\<bar>
      \<le> u * (\<bar>g\<bar> * (z + (u * z + h))) + h + \<bar>g\<bar> * (u * z + h)"
    by linarith
  also have "\<dots> = \<bar>g\<bar> * z * (2 * u + u\<^sup>2) + (\<bar>g\<bar> * (1 + u) + 1) * h"
    by (simp add: algebra_simps power2_eq_square)
  finally show ?thesis by (simp add: u_def h_def z_def)
qed

lemma housingCostShare_ratioCard:
  "housingCostShare (ratioCard T G p c) = fl_mul G (fl_div (Num (od_income c)) T)"
  by (simp add: ratioCard_def Let_def)

lemma shares_sum_error:
  assumes "0 < t"
    and "list_all isFinite (map (\<lambda>x. fl_mul (Num g) (fl_div (Num x) (Num t))) xs)"
  shows "\<bar>sum_list (map (\<lambda>x. valueOf (fl_mul (Num g) (fl_div (Num x) (Num t)))) xs)
            - g * (sum_list xs / t)\<bar>
           \<le> \<bar>g\<bar> * (sum_list (map abs xs) / t) * (2 * halfUlp + halfUlp\<^sup>2)
             + real (length xs) * ((\<bar>g\<bar> * (1 + halfUlp) + 1) * halfTiny)"
  using assms(2)
proof (induction xs)
  case Nil
  then show ?case by simp
next
  case (Cons x xs)
  define c where "c = 2 * halfUlp + halfUlp\<^sup>2"
  define k where "k = (\<bar>g\<bar> * (1 + halfUlp) + 1) * halfTiny"
  define S where "S = sum_list (map (\<lambda>x. valueOf (fl_mul (Num g) (fl_div (Num x) (Num t)))) xs)"
  from Cons.prems obtain s where s: "fl_mul (Num g) (fl_div (Num x) (Num t)) = Num s"
    by (auto simp: isFinite_Num)
  from share_error [OF s assms(1)] have
    a: "\<bar>s - g * (x / t)\<bar> \<le> \<bar>g\<bar> * (\<bar>x\<bar> / t) * c + k"
    by (simp add: c_def k_def)
  from Cons.IH Cons.prems have
    b: "\<bar>S - g * (sum_list xs / t)\<bar>
          \<le> \<bar>g\<bar> * (sum_list (map abs xs) / t) * c + real (length xs) * k"
    by (simp add: c_def k_def S_def)
  have "(s + S) - g * ((x + sum_list xs) / t)
          = (s - g * (x / t)) + (S - g * (sum_list xs / t))"
    by (simp add: add_divide_distrib algebra_simps)
  then have "\<bar>(s + S) - g * ((x + sum_list xs) / t)\<bar>
          \<le> \<bar>s - g * (x / t)\<bar> + \<bar>S - g * (sum_list xs / t)\<bar>"
    by linarith
  with a b have "\<bar>(s + S) - g * ((x + sum_list xs) / t)\<bar>
          \<le> (\<bar>g\<bar> * (\<bar>x\<bar> / t) * c + k)
            + (\<bar>g\<bar> * (sum_list (map abs xs) / t) * c + real (length xs) * k)"
    by linarith
  also have "\<dots> = \<bar>g\<bar> * ((\<bar>x\<bar> + sum_list (map abs xs)) / t) * c
                 + (real (length xs) + 1) * k"
    by (simp add: add_divide_distrib algebra_simps)
  finally show ?case
    using s by (simp add: c_def k_def S_def algebra_simps)
qed

lemma owners_loop_income:
  "owners_loop pg i owners (T, d, od) = (owners', T', d', od') \<Longrightarrow>
     \<exists>new. od' = od @ new
       \<and> length new = length (presentSlots owners)
       \<and> T' = foldl (\<lambda>acc x. fl_add acc (Num x)) T (map od_income new)"
proof (induction owners arbitrary: i T d od owners' T' d' od')
  case Nil
  then show ?case by (simp add: presentSlots_def)
next
  case (Cons slot owners)
  show ?case
  proof (cases slot)
    case None
    with Cons.prems obtain r where
      r: "owners_loop pg (Suc i) owners (T, d, od) = (r, T', d', od')"
      by (auto split: prod.splits)
    from Cons.IH [OF r] show ?thesis
      using None by (simp add: presentSlots_def)
  next
    case (Some ow)
    with Cons.prems obtain o1 T1 d1 od1 r where
      a: "owners_owner pg i ow (T, d, od) = (o1, T1, d1, od1)" and
      r: "owners_loop pg (Suc i) owners (T1, d1, od1) = (r, T', d', od')"
      by (auto split: prod.splits)
    from a obtain c where c: "od1 = od @ [c]" "T1 = fl_add T (Num (od_income c))"
      by (auto simp: owners_owner_def Let_def)
    from Cons.IH [OF r] obtain new where
      n: "od' = od1 @ new" "length new = length (presentSlots owners)"
         "T' = foldl (\<lambda>acc x. fl_add acc (Num x)) T1 (map od_income new)"
      by auto
    show ?thesis
      using Some c n
      by (intro exI [of _ "c # new"]) (simp add: presentSlots_def)
  qed
qed

lemma rounding_bound_sum:
  assumes t: "0 < t" and A: "0 \<le> A"
    and s: "\<bar>S - g * (I / t)\<bar>
              \<le> \<bar>g\<bar> * (A / t) * (2 * halfUlp + halfUlp\<^sup>2)
                + real n * ((\<bar>g\<bar> * (1 + halfUlp) + 1) * halfTiny)"
    and i: "\<bar>t - I\<bar> \<le> ((1 + halfUlp) ^ n - 1) * A + real n * (1 + halfUlp) ^ n * halfTiny"
  shows "\<bar>S - g\<bar> \<le> roundingBound n g A t"
proof -
  define u where "u = halfUlp"
  define h where "h = halfTiny"
  define p where "p = (1 + u) ^ n"
  define G where "G = \<bar>g\<bar>"
  define m where "m = real n"
  have u: "0 < u" and h: "0 < h" using halfUlp_pos halfTiny_pos by (simp_all add: u_def h_def)
  have p: "1 \<le> p" using u by (simp add: p_def)
  have G: "0 \<le> G" by (simp add: G_def)
  have m: "0 \<le> m" by (simp add: m_def)
  have p2: "(1 + u) ^ (n + 2) = p * (1 + u)\<^sup>2"
    by (simp add: p_def power_add power2_eq_square)
  have "g * (I / t) - g = g * ((I - t) / t)"
    using t by (simp add: field_simps)
  then have "\<bar>g * (I / t) - g\<bar> = G * (\<bar>t - I\<bar> / t)"
    using t by (simp add: abs_mult G_def abs_minus_commute)
  also have "\<dots> \<le> G * (((p - 1) * A + m * p * h) / t)"
    using i t G
    by (intro mult_left_mono divide_right_mono) (simp_all add: p_def u_def h_def m_def)
  finally have b: "\<bar>g * (I / t) - g\<bar> \<le> G * (((p - 1) * A + m * p * h) / t)" .
  have "\<bar>S - g\<bar> \<le> \<bar>S - g * (I / t)\<bar> + \<bar>g * (I / t) - g\<bar>"
    using abs_triangle_ineq [of "S - g * (I / t)" "g * (I / t) - g"] by simp
  with s b have c: "\<bar>S - g\<bar>
      \<le> G * (A / t) * (2 * u + u\<^sup>2) + m * ((G * (1 + u) + 1) * h)
        + G * (((p - 1) * A + m * p * h) / t)"
    by (simp add: u_def h_def G_def m_def)
  have d: "G * (A / t) * (p * (1 + u)\<^sup>2 - 1)
           + m * h * (1 + G * (p * (1 + u)\<^sup>2) * (1 + 1 / t))
      = G * (A / t) * (2 * u + u\<^sup>2) + m * ((G * (1 + u) + 1) * h)
        + G * (((p - 1) * A + m * p * h) / t)
        + (G * (A / t) * ((p - 1) * (2 * u + u\<^sup>2))
           + m * h * G * ((p * (1 + u)\<^sup>2 - (1 + u)) + (p * (1 + u)\<^sup>2 - p) / t))"
    using t by (simp add: field_simps power2_eq_square)
  have q1: "0 \<le> (p - 1) * (2 * u + u\<^sup>2)" using p u by simp
  have "1 + u \<le> p * (1 + u)" using p u by simp
  also have "p * (1 + u) \<le> p * (1 + u)\<^sup>2"
    using p u by (simp add: power2_eq_square)
  finally have q2: "0 \<le> p * (1 + u)\<^sup>2 - (1 + u)" by simp
  have "p * 1 \<le> p * (1 + u)\<^sup>2"
    using p u by (intro mult_left_mono) (simp_all add: power2_eq_square algebra_simps)
  then have q3: "0 \<le> (p * (1 + u)\<^sup>2 - p) / t" using t by simp
  have n0: "0 \<le> G * (A / t)" using G A t by simp
  have n1: "0 \<le> G * (A / t) * ((p - 1) * (2 * u + u\<^sup>2))"
    by (rule mult_nonneg_nonneg [OF n0 q1])
  have n2: "0 \<le> m * h * G" using m h G by simp
  have n3: "0 \<le> (p * (1 + u)\<^sup>2 - (1 + u)) + (p * (1 + u)\<^sup>2 - p) / t"
    by (rule add_nonneg_nonneg [OF q2 q3])
  have "0 \<le> G * (A / t) * ((p - 1) * (2 * u + u\<^sup>2))
           + m * h * G * ((p * (1 + u)\<^sup>2 - (1 + u)) + (p * (1 + u)\<^sup>2 - p) / t)"
    by (rule add_nonneg_nonneg [OF n1 mult_nonneg_nonneg [OF n2 n3]])
  with c d have "\<bar>S - g\<bar> \<le> G * (A / t) * (p * (1 + u)\<^sup>2 - 1)
           + m * h * (1 + G * (p * (1 + u)\<^sup>2) * (1 + 1 / t))"
    by linarith
  moreover have "roundingBound n g A t = G * (A / t) * (p * (1 + u)\<^sup>2 - 1)
           + m * h * (1 + G * (p * (1 + u)\<^sup>2) * (1 + 1 / t))"
    by (simp only: roundingBound_def u_def [symmetric] h_def [symmetric] G_def [symmetric]
          m_def [symmetric] p2)
  ultimately show ?thesis by simp
qed

lemma round64_household_integers:
  "round64 400 = Num 400"
  "round64 1500 = Num 1500"
  "round64 1600 = Num 1600"
  "round64 6000 = Num 6000"
proof -
  show "round64 400 = Num 400"
    by (rule round64_exact [where e = 8 and k = "400 * 2 ^ 44"])
      (simp_all add: power_int_def power_one_over)
  show "round64 1500 = Num 1500"
    by (rule round64_exact [where e = 10 and k = "1500 * 2 ^ 42"])
      (simp_all add: power_int_def power_one_over)
  show "round64 1600 = Num 1600"
    by (rule round64_exact [where e = 10 and k = "1600 * 2 ^ 42"])
      (simp_all add: power_int_def power_one_over)
  show "round64 6000 = Num 6000"
    by (rule round64_exact [where e = 12 and k = "6000 * 2 ^ 40"])
      (simp_all add: power_int_def power_one_over)
qed

lemma round64_thirds:
  "round64 (1 / 3) = Num (6004799503160661 / 2 ^ 54)"
  "round64 (2 / 3) = Num (6004799503160661 / 2 ^ 53)"
  using round64_nearest [where x = "1 / 3" and e = "- 2" and k = 6004799503160661]
        round64_nearest [where x = "2 / 3" and e = "- 1" and k = 6004799503160661]
  by (simp_all add: power_int_def power_one_over field_simps)

lemma round64_example_shares:
  "round64 (1600 * (6004799503160661 / 2 ^ 54)) = Num (4691249611844266 / 2 ^ 43)"
  "round64 (1600 * (6004799503160661 / 2 ^ 53)) = Num (4691249611844266 / 2 ^ 42)"
  using round64_nearest [where x = "1600 * (6004799503160661 / 2 ^ 54)" and e = 9
                           and k = 4691249611844266]
        round64_nearest [where x = "1600 * (6004799503160661 / 2 ^ 53)" and e = 10
                           and k = 4691249611844266]
  by (simp_all add: power_int_def power_one_over field_simps)

lemma round64_example_sum:
  "round64 (4691249611844266 / 2 ^ 43 + 4691249611844266 / 2 ^ 42) = Num (1600 - 1 / 2 ^ 42)"
  using round64_exact [where x = "1600 - 1 / 2 ^ 42" and e = 10 and k = "1600 * 2 ^ 42 - 1"]
  by (simp add: power_int_def power_one_over field_simps)

lemma example_owners_loop:
  "owners_loop owners_page 0 example_owners (Num 0, Num 0, []) =
     ([Some \<lparr>owner_name = ''Person 1'', income = 2000, carLoanPayment = 0,
             studentLoanPayment = 0, personalLoanPayment = 0, creditCardPayment = 0\<rparr>,
       None,
       Some \<lparr>owner_name = ''Person 2'', income = 4000, carLoanPayment = 400,
             studentLoanPayment = 0, personalLoanPayment = 0, creditCardPayment = 0\<rparr>],
      Num 6000, Num 400,
      [\<lparr>od_index = 0, od_name = ''Person 1'', od_income = 2000, od_totalDebts = Num 0,
        od_carLoan = 0, od_studentLoan = 0, od_personalLoan = 0, od_creditCard = 0\<rparr>,
       \<lparr>od_index = 2, od_name = ''Person 2'', od_income = 4000, od_totalDebts = Num 400,
        od_carLoan = 400, od_studentLoan = 0, od_personalLoan = 0, od_creditCard = 0\<rparr>])"
  by (simp add: example_owners_def owners_page_def owners_owner_def getInputValue_def
        Let_def round64_household_integers round64_small_integers)

lemma shares_of_calculate:
  assumes "owners_loop pg 0 owners (Num 0, Num 0, []) = (owners', T, d, od)"
    and "od \<noteq> []" and "\<not> js_nonpositive T"
  shows "housingShares (perPersonRatios
           (calculate_affordability pg owners costs loanPayments propertyTax heating rrsp))
         = map (\<lambda>c. fl_mul (fl_add (fl_add loanPayments propertyTax) heating)
                       (fl_div (Num (od_income c)) T)) od"
  using assms
  by (simp add: calculate_affordability_def updateAffordabilityBars_def Let_def
        updatePerPersonRatios_def housingShares_def housingCostShare_ratioCard comp_def)

lemma example_shares:
  "housingShares (perPersonRatios
     (calculate_affordability owners_page example_owners
        (Num 2500) (Num 1200) (Num 300) (Num 100) (Num 100)))
   = [Num (4691249611844266 / 2 ^ 43), Num (4691249611844266 / 2 ^ 42)]"
proof -
  have g: "fl_add (fl_add (Num 1200) (Num 300)) (Num 100) = Num 1600"
    by (simp add: round64_household_integers)
  have a: "fl_mul (Num 1600) (fl_div (Num 2000) (Num 6000)) = Num (4691249611844266 / 2 ^ 43)"
    using round64_thirds(1) round64_example_shares(1) by simp
  have b: "fl_mul (Num 1600) (fl_div (Num 4000) (Num 6000)) = Num (4691249611844266 / 2 ^ 42)"
    using round64_thirds(2) round64_example_shares(2) by simp
  show ?thesis
    unfolding shares_of_calculate [OF example_owners_loop, simplified] g
    using a b by simp
qed

text \<open>
  C8 as stated fails on doubles: the shares are rounded. With the incomes 2000 and 4000
  and the shared cost 1200 + 300 + 100 = 1600 the income shares are the doubles nearest
  to 1/3 and 2/3, the housing shares are 533.3333333333333 and 1066.6666666666665, and
  their sum, which is a double, is \<open>1600 - 1 / 2 ^ 42\<close>, printed 1599.9999999999998.
\<close>

theorem housing_shares_counterexample:
  "housingShares (perPersonRatios
     (calculate_affordability owners_page example_owners
        (Num 2500) (Num 1200) (Num 300) (Num 100) (Num 100)))
     = [Num (4691249611844266 / 2 ^ 43), Num (4691249611844266 / 2 ^ 42)]
   \<and> fl_add (fl_add (Num 1200) (Num 300)) (Num 100) = Num 1600
   \<and> sum_list (map valueOf (housingShares (perPersonRatios
        (calculate_affordability owners_page example_owners
           (Num 2500) (Num 1200) (Num 300) (Num 100) (Num 100))))) = 1600 - 1 / 2 ^ 42
   \<and> sum_list (map valueOf (housingShares (perPersonRatios
        (calculate_affordability owners_page example_owners
           (Num 2500) (Num 1200) (Num 300) (Num 100) (Num 100))))) \<noteq> 1600
   \<and> fl_add (Num (4691249611844266 / 2 ^ 43)) (Num (4691249611844266 / 2 ^ 42))
       = Num (1600 - 1 / 2 ^ 42)"
proof -
  have g: "fl_add (fl_add (Num 1200) (Num 300)) (Num 100) = Num 1600"
    by (simp add: round64_household_integers)
  have a: "fl_add (Num (4691249611844266 / 2 ^ 43)) (Num (4691249611844266 / 2 ^ 42))
       = Num (1600 - 1 / 2 ^ 42)"
    by (simp only: fl_add.simps round64_example_sum)
  have b: "sum_list (map valueOf
      [Num (4691249611844266 / 2 ^ 43), Num (4691249611844266 / 2 ^ 42)])
      = 1600 - 1 / 2 ^ 42"
    by simp
  have c: "(1600 - 1 / 2 ^ 42 :: real) \<noteq> 1600" by simp
  show ?thesis
    unfolding example_shares b using g a c by (intro conjI) simp_all
qed

text \<open>
  C8, amended. For every list of household members with at least one present member and
  a positive combined income, there is one card per present member, and when the shares
  of the housing costs on the cards, each the shared cost times the income of the
  member divided by the combined income, are finite numbers, so is the shared cost
  (loan payments plus monthly property tax plus the utility proxy), and the shares add
  up to it within the rounding of the operations: the distance is at most
  \<open>roundingBound n g a t\<close> for \<open>n\<close> members, the shared cost \<open>g\<close>, the sum \<open>a\<close> of
  the absolute incomes and the combined income \<open>t\<close>.
\<close>

theorem housing_shares_sum_within_rounding:
  "presentSlots owners \<noteq> [] \<and> householdIncome pg owners = Num t \<and> 0 < t
   \<and> list_all isFinite (housingShares (perPersonRatios
        (calculate_affordability pg owners costs loanPayments propertyTax heating rrsp)))
   \<longrightarrow>
     length (housingShares (perPersonRatios
        (calculate_affordability pg owners costs loanPayments propertyTax heating rrsp)))
       = length (presentSlots owners)
     \<and> isFinite (fl_add (fl_add loanPayments propertyTax) heating)
     \<and> \<bar>sum_list (map valueOf (housingShares (perPersonRatios
          (calculate_affordability pg owners costs loanPayments propertyTax heating rrsp))))
        - valueOf (fl_add (fl_add loanPayments propertyTax) heating)\<bar>
       \<le> roundingBound (length (presentSlots owners))
            (valueOf (fl_add (fl_add loanPayments propertyTax) heating))
            (sum_list (map abs (memberIncomes pg owners))) t"
proof (intro impI)
  let ?shares = "housingShares (perPersonRatios
        (calculate_affordability pg owners costs loanPayments propertyTax heating rrsp))"
  let ?G = "fl_add (fl_add loanPayments propertyTax) heating"
  assume h: "presentSlots owners \<noteq> [] \<and> householdIncome pg owners = Num t \<and> 0 < t
    \<and> list_all isFinite ?shares"
  obtain owners' T d od where
    l: "owners_loop pg 0 owners (Num 0, Num 0, []) = (owners', T, d, od)"
    by (cases "owners_loop pg 0 owners (Num 0, Num 0, [])") auto
  from owners_loop_income [OF l] have
    n: "length od = length (presentSlots owners)"
    and f: "T = foldl (\<lambda>acc x. fl_add acc (Num x)) (Num 0) (map od_income od)"
    by auto
  from h l have T: "T = Num t" and t: "0 < t" by (simp_all add: householdIncome_def)
  from h n have ne: "od \<noteq> []" by auto
  have m: "memberIncomes pg owners = map od_income od"
    by (simp add: memberIncomes_def l)
  have s: "?shares = map (\<lambda>c. fl_mul ?G (fl_div (Num (od_income c)) (Num t))) od"
    using shares_of_calculate [OF l ne] T t by simp
  from ne obtain c cs where od: "od = c # cs" by (cases od) auto
  from h s od t have "isFinite (fl_mul ?G (fl_div (Num (od_income c)) (Num t)))" by simp
  then obtain g where g: "?G = Num g"
    using fl_mul_Num [of ?G "fl_div (Num (od_income c)) (Num t)"]
    by (auto simp: isFinite_Num)
  have fin: "list_all isFinite
      (map (\<lambda>x. fl_mul (Num g) (fl_div (Num x) (Num t))) (map od_income od))"
    using h s g t by (simp add: comp_def)
  have v: "map valueOf ?shares
      = map (\<lambda>x. valueOf (fl_mul (Num g) (fl_div (Num x) (Num t)))) (map od_income od)"
    using s g t by (simp add: comp_def)
  have A: "0 \<le> sum_list (map abs (map od_income od))"
    by (rule sum_list_nonneg) auto
  from f T have "foldl (\<lambda>acc x. fl_add acc (Num x)) (Num 0) (map od_income od) = Num t"
    by simp
  from income_sum_error [OF this] have
    i: "\<bar>t - sum_list (map od_income od)\<bar>
          \<le> ((1 + halfUlp) ^ length od - 1) * sum_list (map abs (map od_income od))
            + real (length od) * (1 + halfUlp) ^ length od * halfTiny"
    by simp
  from shares_sum_error [OF t fin] have
    e: "\<bar>sum_list (map valueOf ?shares) - g * (sum_list (map od_income od) / t)\<bar>
          \<le> \<bar>g\<bar> * (sum_list (map abs (map od_income od)) / t) * (2 * halfUlp + halfUlp\<^sup>2)
            + real (length od) * ((\<bar>g\<bar> * (1 + halfUlp) + 1) * halfTiny)"
    by (simp only: v length_map)
  from rounding_bound_sum [OF t A e i] have
    "\<bar>sum_list (map valueOf ?shares) - g\<bar>
       \<le> roundingBound (length od) g (sum_list (map abs (map od_income od))) t" .
  then show "length ?shares = length (presentSlots owners)
     \<and> isFinite ?G
     \<and> \<bar>sum_list (map valueOf ?shares) - valueOf ?G\<bar>
       \<le> roundingBound (length (presentSlots owners)) (valueOf ?G)
            (sum_list (map abs (memberIncomes pg owners))) t"
    using s n g m by simp
qed

lemma example_bound: "roundingBound 2 1600 6000 6000 < 1 / 10 ^ 12"
  by (simp add: roundingBound_def halfUlp_def halfTiny_def power_int_minus power_divide)

theorem housing_shares_sum_within_rounding_witness:
  "presentSlots example_owners \<noteq> []
   \<and> householdIncome owners_page example_owners = Num 6000
   \<and> memberIncomes owners_page example_owners = [2000, 4000]
   \<and> list_all isFinite (housingShares (perPersonRatios
        (calculate_affordability owners_page example_owners
           (Num 2500) (Num 1200) (Num 300) (Num 100) (Num 100))))
   \<and> \<bar>sum_list (map valueOf (housingShares (perPersonRatios
          (calculate_affordability owners_page example_owners
             (Num 2500) (Num 1200) (Num 300) (Num 100) (Num 100))))) - 1600\<bar>
       \<le> roundingBound 2 1600 6000 6000
   \<and> roundingBound 2 1600 6000 6000 < 1 / 10 ^ 12"
proof -
  have a: "presentSlots example_owners \<noteq> []"
    and n: "length (presentSlots example_owners) = 2"
    by (simp_all add: presentSlots_def example_owners_def)
  have b: "householdIncome owners_page example_owners = Num 6000"
    by (simp add: householdIncome_def example_owners_loop)
  have m: "memberIncomes owners_page example_owners = [2000, 4000]"
    by (simp add: memberIncomes_def example_owners_loop)
  have c: "list_all isFinite (housingShares (perPersonRatios
        (calculate_affordability owners_page example_owners
           (Num 2500) (Num 1200) (Num 300) (Num 100) (Num 100))))"
    by (simp add: example_shares)
  have g: "fl_add (fl_add (Num 1200) (Num 300)) (Num 100) = Num 1600"
    by (simp add: round64_household_integers)
  show ?thesis
    using housing_shares_sum_within_rounding
            [where owners = example_owners and pg = owners_page and t = 6000
               and costs = "Num 2500" and loanPayments = "Num 1200"
               and propertyTax = "Num 300" and heating = "Num 100" and rrsp = "Num 100"]
          a n b m c g example_bound
    by simp
qed

end
